theory Spec2Isabelle
  imports Main "HOL-Library.Sublist" "HOL-Library.AList"
begin

section \<open>Values of the platform\<close>

text \<open>
  The repository holds two variants of one request handler: \<^verbatim>\<open>src/r2_worker.js\<close>
  (sizes are learnt from the fetched object, ranges are capped: the deferred variant) and
  \<^verbatim>\<open>src/unnamed/part_000\<close> (a metadata probe gives the size first: the eager variant).
  \<^verbatim>\<open>normalizeKey\<close>, \<^verbatim>\<open>build304Headers\<close>, \<^verbatim>\<open>withCommonHeaders\<close> and the
  full-object tail of \<^verbatim>\<open>fetch\<close> are the same text in both files and are modelled once;
  \<^verbatim>\<open>parseRange\<close> and \<^verbatim>\<open>fetch\<close> differ and carry the suffix of their variant.

  Numbers. The handlers compute with double-precision numbers. Every number of the model
  is an integer (\<open>int\<close>): the value a run of decimal digits converts to, an object size,
  the configured maximum. \<open>fl\<close> is the rounding of the platform, to the nearest double with
  ties to the even mantissa: the identity up to \<open>2 ^ 53\<close>, 53 significant bits beyond, and
  \<open>2 ^ 1024\<close>, which stands for \<^verbatim>\<open>Infinity\<close>, from \<open>2 ^ 1024 - 2 ^ 970\<close> on.
  \<^verbatim>\<open>Number(s)\<close> is the rounded value of the digits, and the sums and differences that the
  deferred \<^verbatim>\<open>parseRange\<close> takes of such numbers are rounded operation by operation. The
  eager \<^verbatim>\<open>parseRange\<close> and the handlers compute with the object's size: their
  differences are taken between numbers that do not exceed the size, and the end that the
  deferred handler reports is the minimum of \<open>size - 1\<close> and a sum, which rounding the sum
  does not change. These are exact for every size below \<open>2 ^ 53\<close> and are written without
  \<open>fl\<close>. A configured maximum with a fractional part is not an \<open>int\<close> and is outside
  the model.

  Strings are \<open>string\<close>; header values are byte strings on the platform as well.
\<close>

definition isDigit :: "char \<Rightarrow> bool" where
  \<comment> \<open>the class \<^verbatim>\<open>\d\<close> of the regular expressions\<close>
  "isDigit c = (48 \<le> (of_char c :: nat) \<and> (of_char c :: nat) \<le> 57)"

definition digits_value :: "string \<Rightarrow> int" where
  \<comment> \<open>the integer that a run of decimal digits denotes; the empty run denotes 0\<close>
  "digits_value s = foldl (\<lambda>n c. 10 * n + (int (of_char c) - 48)) 0 s"

function bit_length :: "int \<Rightarrow> nat" where
  "bit_length n = (if n \<le> 0 then 0 else Suc (bit_length (n div 2)))"
  by pat_completeness auto
termination
  by (relation "measure nat") auto

declare bit_length.simps [simp del]

definition fl :: "int \<Rightarrow> int" where
  \<comment> \<open>The double nearest to the integer \<open>x\<close>, ties to the even mantissa. Beyond
      \<open>2 ^ 53\<close> a double keeps the 53 leading bits of \<open>x\<close>: \<open>q\<close> is the weight of the
      last kept bit, \<open>n\<close> the kept bits, \<open>r\<close> what is cut off. \<open>2 ^ 1024\<close> stands for
      \<^verbatim>\<open>Infinity\<close>.\<close>
  "fl x =
     (if \<bar>x\<bar> \<le> 2 ^ 53 then x
      else if \<bar>x\<bar> \<ge> 2 ^ 1024 - 2 ^ 970 then sgn x * 2 ^ 1024
      else
        let q = 2 ^ (bit_length \<bar>x\<bar> - 53);
            n = \<bar>x\<bar> div q;
            r = \<bar>x\<bar> mod q
        in sgn x * (if 2 * r > q \<or> (2 * r = q \<and> odd n) then n + 1 else n) * q)"

definition Number :: "string \<Rightarrow> int" where
  \<comment> \<open>\<^verbatim>\<open>Number(s)\<close> for a run of decimal digits \<open>s\<close>; the empty run gives 0\<close>
  "Number s = fl (digits_value s)"

definition isFinite :: "int \<Rightarrow> bool" where
  \<comment> \<open>\<^verbatim>\<open>Number.isFinite(x)\<close>: false of \<open>2 ^ 1024\<close>, which stands for \<^verbatim>\<open>Infinity\<close>\<close>
  "isFinite x = (\<bar>x\<bar> < 2 ^ 1024 - 2 ^ 970)"

fun nat_digits :: "nat \<Rightarrow> string" where
  "nat_digits n =
     (if n < 10 then [char_of (48 + n)]
      else nat_digits (n div 10) @ [char_of (48 + n mod 10)])"

declare nat_digits.simps [simp del]

definition toString :: "int \<Rightarrow> string" where
  \<comment> \<open>\<^verbatim>\<open>String(x)\<close> and the interpolation \<^verbatim>\<open>${x}\<close> of a number: its decimal digits,
      which is what the platform prints for an integer up to \<open>2 ^ 53\<close>\<close>
  "toString x = (if x < 0 then CHR ''-'' # nat_digits (nat (- x)) else nat_digits (nat x))"

definition truthy :: "string option \<Rightarrow> bool" where
  \<comment> \<open>a string or \<^verbatim>\<open>null\<close>/\<^verbatim>\<open>undefined\<close> used as a condition: the empty string is false too\<close>
  "truthy v = (case v of None \<Rightarrow> False | Some s \<Rightarrow> s \<noteq> [])"

section \<open>The Range header\<close>

definition match_range :: "string \<Rightarrow> (string \<times> string) option" where
  \<comment> \<open>\<^verbatim>\<open>header.match(/^bytes=(\d*)-(\d*)$/)\<close>: the two captured groups, or no match\<close>
  "match_range header =
     (if take 6 header = ''bytes='' then
        (let rest = drop 6 header;
             startStr = takeWhile isDigit rest
         in case dropWhile isDigit rest of
              [] \<Rightarrow> None
            | c # endStr \<Rightarrow>
                if c = CHR ''-'' \<and> list_all isDigit endStr then Some (startStr, endStr)
                else None)
      else None)"

record window =
  offset :: int
  length_r :: int
  start :: int
  end_r :: int

text \<open>
  What \<^verbatim>\<open>parseRange\<close> returns: \<^verbatim>\<open>null\<close> is \<open>None\<close>; the marker objects
  \<^verbatim>\<open>{ invalid: true }\<close>, \<^verbatim>\<open>{ tooLarge: true }\<close> (deferred variant) and
  \<^verbatim>\<open>{ unsatisfiable: true }\<close> (eager variant) are constructors; the object
  \<^verbatim>\<open>{ offset, length, start, end }\<close> is a \<open>window\<close>.
\<close>

datatype range_deferred =
    Invalid
  | TooLarge
  | DWindow window

datatype range_eager =
    Unsatisfiable
  | EWindow window

subsection \<open>Deferred variant: \<^verbatim>\<open>src/r2_worker.js\<close>\<close>

definition DEFAULT_MAX_RANGE_BYTES :: int where
  "DEFAULT_MAX_RANGE_BYTES = 8 * 1024 * 1024"

definition getMaxRangeBytes :: "int option \<Rightarrow> int" where
  \<comment> \<open>The argument is \<^verbatim>\<open>Number(env?.RANGE_MAX_BYTES)\<close> when that is an integer, \<open>None\<close>
      when it is \<^verbatim>\<open>NaN\<close> (the variable is unset or is no number).\<close>
  "getMaxRangeBytes v =
     (case v of
        None \<Rightarrow> DEFAULT_MAX_RANGE_BYTES
      | Some val \<Rightarrow> if isFinite val \<and> val > 0 then val else DEFAULT_MAX_RANGE_BYTES)"

definition parseRange_deferred :: "string option \<Rightarrow> int \<Rightarrow> range_deferred option" where
  "parseRange_deferred rangeHeader maxBytes =
     (if \<not> truthy rangeHeader then None
      else case match_range (the rangeHeader) of
        None \<Rightarrow> Some Invalid
      | Some (startStr, endStr) \<Rightarrow>
          if startStr = [] \<and> endStr = [] then Some Invalid
          else if startStr = [] then Some Invalid
          else
            let start = Number startStr in
            if \<not> isFinite start \<or> start < 0 then Some Invalid
            else if endStr = [] then
              (let length = maxBytes;
                   end = fl (fl (start + length) - 1)
               in if length > maxBytes then Some TooLarge
                  else Some (DWindow \<lparr>offset = start, length_r = length, start = start, end_r = end\<rparr>))
            else
              (let end = Number endStr in
               if \<not> isFinite end \<or> end < start then Some Invalid
               else
                 let length = fl (fl (end - start) + 1)
                 in if length > maxBytes then Some TooLarge
                    else Some (DWindow \<lparr>offset = start, length_r = length, start = start, end_r = end\<rparr>)))"

subsection \<open>Eager variant: \<^verbatim>\<open>src/unnamed/part_000\<close>\<close>

definition hasValidRangeFormat :: "string option \<Rightarrow> bool" where
  "hasValidRangeFormat header = (truthy header \<and> match_range (the header) \<noteq> None)"

definition parseRange_eager :: "string option \<Rightarrow> int \<Rightarrow> range_eager option" where
  "parseRange_eager rangeHeader size' =
     (if \<not> truthy rangeHeader then None
      else case match_range (the rangeHeader) of
        None \<Rightarrow> None
      | Some (startStr, endStr) \<Rightarrow>
          if startStr = [] \<and> endStr = [] then None
          else if startStr = [] then
            (let suffix = Number endStr in
             if \<not> isFinite suffix \<or> suffix \<le> 0 then None
             else
               let length = min suffix size';
                   start = max 0 (size' - length);
                   end = size' - 1
               in Some (EWindow \<lparr>offset = start, length_r = length, start = start, end_r = end\<rparr>))
          else
            let start = Number startStr in
            if \<not> isFinite start \<or> start < 0 then None
            else if endStr = [] then
              (if start \<ge> size' then Some Unsatisfiable
               else
                 let end = size' - 1;
                     length = size' - start
                 in Some (EWindow \<lparr>offset = start, length_r = length, start = start, end_r = end\<rparr>))
            else
              (let end = Number endStr in
               if \<not> isFinite end \<or> end < start then None
               else if start \<ge> size' then Some Unsatisfiable
               else
                 let clampedEnd = min end (size' - 1);
                     length = clampedEnd - start + 1
                 in Some (EWindow \<lparr>offset = start, length_r = length, start = start,
                                    end_r = clampedEnd\<rparr>)))"

section \<open>Keys\<close>

definition normalizeKey :: "(string \<Rightarrow> string option) \<Rightarrow> string \<Rightarrow> string option" where
  \<comment> \<open>The first argument is the platform's \<^verbatim>\<open>decodeURIComponent\<close>, \<open>None\<close> where
      it throws. \<open>None\<close> as a result is \<^verbatim>\<open>null\<close>.\<close>
  "normalizeKey decodeURIComponent pathname =
     (case decodeURIComponent pathname of
        None \<Rightarrow> None
      | Some decoded \<Rightarrow>
          let key = dropWhile (\<lambda>c. c = CHR ''/'') decoded
          in if key = [] then Some ''index.html''
             else if suffix ''/'' key then Some (key @ ''index.html'')
             else if sublist ''..'' key \<or> sublist [CHR 0x00] key then None
             else Some key)"

definition hexval :: "char \<Rightarrow> nat option" where
  "hexval c =
     (let n = (of_char c :: nat)
      in if 48 \<le> n \<and> n \<le> 57 then Some (n - 48)
         else if 65 \<le> n \<and> n \<le> 70 then Some (n - 55)
         else if 97 \<le> n \<and> n \<le> 102 then Some (n - 87)
         else None)"

fun decodeURIComponent_ascii :: "string \<Rightarrow> string option" where
  "decodeURIComponent_ascii [] = Some []"
| "decodeURIComponent_ascii [c] = (if c = CHR ''%'' then None else Some [c])"
| "decodeURIComponent_ascii [c, d] =
     (if c = CHR ''%'' then None else map_option ((#) c) (decodeURIComponent_ascii [d]))"
| "decodeURIComponent_ascii (c # h # l # cs) =
     (if c = CHR ''%'' then
        (case (hexval h, hexval l) of
           (Some a, Some b) \<Rightarrow>
             if 16 * a + b < 128
             then map_option ((#) (char_of (16 * a + b))) (decodeURIComponent_ascii cs)
             else None
         | _ \<Rightarrow> None)
      else map_option ((#) c) (decodeURIComponent_ascii (h # l # cs)))"

text \<open>
  \<open>decodeURIComponent_ascii\<close> is the instance of the platform function that the closed
  examples below run with. It is \<^verbatim>\<open>decodeURIComponent\<close> on every string whose escapes are
  all below \<^verbatim>\<open>%80\<close>: an escape of two hexadecimal digits becomes its character, any
  other use of \<^verbatim>\<open>%\<close> throws. Escapes from \<^verbatim>\<open>%80\<close> on (the UTF-8 sequences, whose
  characters need not fit a \<open>char\<close>) are not covered by this instance; the theorems
  hold for every decoder.
\<close>

section \<open>Requests, objects and responses\<close>

type_synonym headers = "(string \<times> string) list"

text \<open>
  A \<^verbatim>\<open>Headers\<close> object is the list of its (name, value) entries, one entry per name.
  The handlers write every name with one spelling, so names are compared as they are.
\<close>

definition h_set :: "string \<Rightarrow> string \<Rightarrow> headers \<Rightarrow> headers" where
  \<comment> \<open>\<^verbatim>\<open>headers.set(name, value)\<close>\<close>
  "h_set name v h = AList.update name v h"

definition h_get :: "string \<Rightarrow> headers \<Rightarrow> string option" where
  \<comment> \<open>\<^verbatim>\<open>headers.get(name)\<close>\<close>
  "h_get name h = map_of h name"

definition h_has :: "string \<Rightarrow> headers \<Rightarrow> bool" where
  \<comment> \<open>\<^verbatim>\<open>headers.has(name)\<close>\<close>
  "h_has name h = (map_of h name \<noteq> None)"

record request =
  method_req :: string
  pathname :: string
  headers_req :: headers

record http_metadata =
  cacheControl :: "string option"

text \<open>
  An object as the bucket returns it. \<open>size_o\<close> is \<^verbatim>\<open>obj.size\<close>: an integer in the
  eager variant, which computes with it unchecked; an \<open>int option\<close> in the deferred
  variant, which tests \<^verbatim>\<open>typeof totalSize === "number"\<close> (\<open>None\<close>: not a number).
  \<open>uploaded\<close> is the text of \<^verbatim>\<open>obj.uploaded.toUTCString()\<close>. \<open>body_o\<close> is
  \<^verbatim>\<open>obj.body\<close>, \<open>None\<close> when the object has no body (the conditional request matched).
  \<open>writeHttpMetadata\<close> is the object's method of that name, as the function from the
  headers before the call to the headers after it.
\<close>

record 's r2object =
  size_o :: 's
  httpEtag :: string
  uploaded :: string
  httpMetadata :: "http_metadata option"
  body_o :: "string option"
  writeHttpMetadata :: "headers \<Rightarrow> headers"

text \<open>
  The bucket: \<open>head key\<close> is \<^verbatim>\<open>BUCKET.head(key)\<close>; \<open>get key onlyIf range\<close> is
  \<^verbatim>\<open>BUCKET.get(key, { onlyIf, range })\<close>, the range being (offset, length) when given.
  A handler returns its response together with the calls it made to the bucket, in order.
\<close>

record 's bucket =
  head :: "string \<Rightarrow> 's r2object option"
  get :: "string \<Rightarrow> headers \<Rightarrow> (int \<times> int) option \<Rightarrow> 's r2object option"

datatype bucket_call =
    Head string
  | Get string headers "(int \<times> int) option"

record 's env =
  RANGE_MAX_BYTES :: "int option"
  BUCKET :: "'s bucket"

definition build304Headers :: "'s r2object \<Rightarrow> headers" where
  "build304Headers obj =
     (let h = [];
          h = h_set ''ETag'' (httpEtag obj) h;
          h = h_set ''Last-Modified'' (uploaded obj) h
      in case Option.bind (httpMetadata obj) cacheControl of
           None \<Rightarrow> h
         | Some cc \<Rightarrow> if cc \<noteq> [] then h_set ''Cache-Control'' cc h else h)"

definition withCommonHeaders :: "'s r2object \<Rightarrow> headers \<Rightarrow> headers" where
  "withCommonHeaders obj headers =
     (let headers = writeHttpMetadata obj headers;
          headers = h_set ''ETag'' (httpEtag obj) headers;
          headers = h_set ''Last-Modified'' (uploaded obj) headers;
          headers = h_set ''Accept-Ranges'' ''bytes'' headers
      in if \<not> h_has ''Cache-Control'' headers
         then h_set ''Cache-Control'' ''public, max-age=3600'' headers
         else headers)"

definition String_size :: "int option \<Rightarrow> string" where
  \<comment> \<open>\<^verbatim>\<open>String(obj.size)\<close> in the deferred variant\<close>
  "String_size v = (case v of None \<Rightarrow> ''undefined'' | Some n \<Rightarrow> toString n)"

text \<open>
  A response as the handler builds it: the status, the headers it passes to
  \<^verbatim>\<open>new Response\<close> (a \<^verbatim>\<open>Content-Type\<close> that the platform adds to a text body is not among
  them), and the body, \<open>None\<close> for \<^verbatim>\<open>null\<close>.
\<close>

record response =
  status :: nat
  headers :: headers
  body :: "string option"

subsection \<open>The handler of the deferred variant\<close>

definition fetch_deferred ::
  "(string \<Rightarrow> string option) \<Rightarrow> request \<Rightarrow> (int option) env \<Rightarrow> response \<times> bucket_call list" where
  \<comment> \<open>After the 416 test a non-null \<open>rangeReq\<close> is a window (\<open>parseRange_deferred_marker\<close>
      below), so \<^verbatim>\<open>if (rangeReq)\<close> is the window case.\<close>
  "fetch_deferred decodeURIComponent request env =
     (if method_req request \<noteq> ''GET'' \<and> method_req request \<noteq> ''HEAD'' then
        (\<lparr>status = 405, headers = [(''Allow'', ''GET, HEAD'')],
          body = Some ''Method Not Allowed''\<rparr>, [])
      else
        let key = normalizeKey decodeURIComponent (pathname request) in
        if \<not> truthy key then (\<lparr>status = 400, headers = [], body = Some ''Bad Request''\<rparr>, [])
        else
          let key = the key;
              rangeHeader = h_get ''Range'' (headers_req request);
              rangeReq = parseRange_deferred rangeHeader (getMaxRangeBytes (RANGE_MAX_BYTES env))
          in
          if truthy rangeHeader \<and> (rangeReq = Some Invalid \<or> rangeReq = Some TooLarge) then
            (\<lparr>status = 416, headers = [], body = Some ''Range Not Satisfiable''\<rparr>, [])
          else
            case rangeReq of
              Some (DWindow w) \<Rightarrow>
                (let range = Some (offset w, length_r w);
                     calls = [Get key (headers_req request) range]
                 in case get (BUCKET env) key (headers_req request) range of
                      None \<Rightarrow> (\<lparr>status = 404, headers = [], body = Some ''Not Found''\<rparr>, calls)
                    | Some obj \<Rightarrow>
                        if body_o obj = None then
                          (\<lparr>status = 304, headers = build304Headers obj, body = None\<rparr>, calls)
                        else
                          let headers = withCommonHeaders obj [] in
                          (case size_o obj of
                             Some totalSize \<Rightarrow>
                               if start w \<ge> totalSize then
                                 (\<lparr>status = 416,
                                   headers = [(''Content-Range'', ''bytes */'' @ toString totalSize)],
                                   body = Some ''Range Not Satisfiable''\<rparr>, calls)
                               else
                                 let end = min (start w + length_r w - 1) (totalSize - 1);
                                     length = end - start w + 1;
                                     headers = h_set ''Content-Range''
                                       (''bytes '' @ toString (start w) @ ''-'' @ toString end
                                          @ ''/'' @ toString totalSize) headers;
                                     headers = h_set ''Content-Length'' (toString length) headers
                                 in (\<lparr>status = 206, headers = headers,
                                      body = (if method_req request = ''HEAD'' then None
                                              else body_o obj)\<rparr>, calls)
                           | None \<Rightarrow>
                               let end = end_r w;
                                   length = end - start w + 1;
                                   headers = h_set ''Content-Range''
                                     (''bytes '' @ toString (start w) @ ''-'' @ toString end
                                        @ ''/*'') headers;
                                   headers = h_set ''Content-Length'' (toString length) headers
                               in (\<lparr>status = 206, headers = headers,
                                    body = (if method_req request = ''HEAD'' then None
                                            else body_o obj)\<rparr>, calls)))
            | _ \<Rightarrow>
                (let calls = [Get key (headers_req request) None]
                 in case get (BUCKET env) key (headers_req request) None of
                      None \<Rightarrow> (\<lparr>status = 404, headers = [], body = Some ''Not Found''\<rparr>, calls)
                    | Some obj \<Rightarrow>
                        if body_o obj = None then
                          (\<lparr>status = 304, headers = build304Headers obj, body = None\<rparr>, calls)
                        else
                          let headers = withCommonHeaders obj [];
                              headers = h_set ''Content-Length'' (String_size (size_o obj)) headers
                          in (\<lparr>status = 200, headers = headers,
                               body = (if method_req request = ''HEAD'' then None
                                       else body_o obj)\<rparr>, calls)))"

subsection \<open>The handler of the eager variant\<close>

definition fetch_eager ::
  "(string \<Rightarrow> string option) \<Rightarrow> request \<Rightarrow> int env \<Rightarrow> response \<times> bucket_call list" where
  "fetch_eager decodeURIComponent request env =
     (if method_req request \<noteq> ''GET'' \<and> method_req request \<noteq> ''HEAD'' then
        (\<lparr>status = 405, headers = [(''Allow'', ''GET, HEAD'')],
          body = Some ''Method Not Allowed''\<rparr>, [])
      else
        let key = normalizeKey decodeURIComponent (pathname request) in
        if \<not> truthy key then (\<lparr>status = 400, headers = [], body = Some ''Bad Request''\<rparr>, [])
        else
          let key = the key;
              rangeHeader = h_get ''Range'' (headers_req request);
              full = (\<lambda>calls.
                let calls = calls @ [Get key (headers_req request) None]
                in case get (BUCKET env) key (headers_req request) None of
                     None \<Rightarrow> (\<lparr>status = 404, headers = [], body = Some ''Not Found''\<rparr>, calls)
                   | Some obj \<Rightarrow>
                       if body_o obj = None then
                         (\<lparr>status = 304, headers = build304Headers obj, body = None\<rparr>, calls)
                       else
                         let headers = withCommonHeaders obj [];
                             headers = h_set ''Content-Length'' (toString (size_o obj)) headers
                         in (\<lparr>status = 200, headers = headers,
                              body = (if method_req request = ''HEAD'' then None
                                      else body_o obj)\<rparr>, calls))
          in
          if hasValidRangeFormat rangeHeader then
            (case head (BUCKET env) key of
               None \<Rightarrow> (\<lparr>status = 404, headers = [], body = Some ''Not Found''\<rparr>, [Head key])
             | Some head' \<Rightarrow>
                 let size' = size_o head';
                     rangeReq = parseRange_eager rangeHeader size'
                 in (case rangeReq of
                      Some Unsatisfiable \<Rightarrow>
                        (\<lparr>status = 416,
                          headers = [(''Content-Range'', ''bytes */'' @ toString size')],
                          body = Some ''Range Not Satisfiable''\<rparr>, [Head key])
                    | Some (EWindow w) \<Rightarrow>
                        (let range = Some (offset w, length_r w);
                             calls = [Head key, Get key (headers_req request) range]
                         in case get (BUCKET env) key (headers_req request) range of
                              None \<Rightarrow>
                                (\<lparr>status = 404, headers = [], body = Some ''Not Found''\<rparr>, calls)
                            | Some obj \<Rightarrow>
                                if body_o obj = None then
                                  (\<lparr>status = 304, headers = build304Headers obj, body = None\<rparr>,
                                   calls)
                                else
                                  let headers = withCommonHeaders obj [];
                                      headers = h_set ''Content-Range''
                                        (''bytes '' @ toString (start w) @ ''-''
                                           @ toString (end_r w) @ ''/'' @ toString size') headers;
                                      headers = h_set ''Content-Length''
                                        (toString (length_r w)) headers
                                  in (\<lparr>status = 206, headers = headers,
                                       body = (if method_req request = ''HEAD'' then None
                                               else body_o obj)\<rparr>, calls))
                    | None \<Rightarrow> full [Head key]))
          else full [])"

section \<open>A bucket and requests to run the handlers on\<close>

text \<open>
  The closed examples run the handlers on a bucket that holds one object, under the key
  \<^verbatim>\<open>a.bin\<close>. A ranged \<open>get\<close> returns the bytes of the range; a \<open>get\<close> whose
  \<^verbatim>\<open>If-None-Match\<close> names the object's entity tag returns the object without a body.
  \<open>mk\<close> wraps the size: \<open>id\<close> for the eager variant, \<open>Some\<close> for the deferred one.
\<close>

definition example_object :: "'s \<Rightarrow> string option \<Rightarrow> 's r2object" where
  "example_object sz b =
     \<lparr>size_o = sz, httpEtag = ''etag-1'', uploaded = ''Thu, 01 Jan 2026 00:00:00 GMT'',
       httpMetadata = Some \<lparr>cacheControl = Some ''no-store''\<rparr>, body_o = b,
       writeHttpMetadata = h_set ''Cache-Control'' ''no-store''\<rparr>"

definition example_bucket :: "(int \<Rightarrow> 's) \<Rightarrow> string \<Rightarrow> 's bucket" where
  "example_bucket mk content =
     \<lparr>head = (\<lambda>key. if key = ''a.bin''
                     then Some (example_object (mk (int (length content))) None)
                     else None),
       get = (\<lambda>key onlyIf range.
                if key \<noteq> ''a.bin'' then None
                else if h_get ''If-None-Match'' onlyIf = Some ''etag-1''
                then Some (example_object (mk (int (length content))) None)
                else Some (example_object (mk (int (length content)))
                       (Some (case range of
                                None \<Rightarrow> content
                              | Some (off, len) \<Rightarrow> take (nat len) (drop (nat off) content)))))\<rparr>"

definition example_env :: "(int \<Rightarrow> 's) \<Rightarrow> int option \<Rightarrow> nat \<Rightarrow> 's env" where
  \<comment> \<open>the object has \<open>n\<close> bytes; \<open>cfg\<close> is the configured maximum\<close>
  "example_env mk cfg n =
     \<lparr>RANGE_MAX_BYTES = cfg, BUCKET = example_bucket mk (replicate n CHR ''x'')\<rparr>"

definition example_request :: "string \<Rightarrow> string \<Rightarrow> headers \<Rightarrow> request" where
  "example_request m p hs = \<lparr>method_req = m, pathname = p, headers_req = hs\<rparr>"

section \<open>Digits and the grammar of the header\<close>

lemma fl_exact: "\<bar>x\<bar> \<le> 2 ^ 53 \<Longrightarrow> fl x = x"
  by (simp add: fl_def)

lemma fl_nonneg:
  assumes "0 \<le> x"
  shows "0 \<le> fl x"
proof -
  have d: "0 \<le> \<bar>x\<bar> div 2 ^ k" for k :: nat
    by (simp add: pos_imp_zdiv_nonneg_iff)
  have p: "0 \<le> (if c then \<bar>x\<bar> div 2 ^ k + 1 else \<bar>x\<bar> div 2 ^ k) * 2 ^ k"
    for c and k :: nat
    using d [of k] by simp
  have s: "0 \<le> sgn x" using assms by (simp add: sgn_if)
  have "0 \<le> sgn x * (if c then \<bar>x\<bar> div 2 ^ k + 1 else \<bar>x\<bar> div 2 ^ k) * 2 ^ k"
    for c and k :: nat
    using mult_nonneg_nonneg [OF s p [of c k]] by (simp add: mult.assoc)
  moreover have "0 \<le> sgn x * 2 ^ 1024"
    using s by simp
  ultimately show ?thesis
    using assms unfolding fl_def Let_def by presburger
qed

lemma isFinite_exact: "\<bar>x\<bar> \<le> 2 ^ 53 \<Longrightarrow> isFinite x"
  by (simp add: isFinite_def)

lemma digits_value_Nil: "digits_value [] = 0"
  by (simp add: digits_value_def)

lemma digits_value_snoc:
  "digits_value (s @ [c]) = 10 * digits_value s + (int (of_char c) - 48)"
  by (simp add: digits_value_def)

lemma digits_value_nonneg: "list_all isDigit s \<Longrightarrow> 0 \<le> digits_value s"
proof (induction s rule: rev_induct)
  case Nil
  show ?case by (simp add: digits_value_Nil)
next
  case (snoc c s)
  then have "0 \<le> digits_value s" and "48 \<le> (of_char c :: nat)"
    by (simp_all add: isDigit_def)
  then show ?case by (simp add: digits_value_snoc)
qed

lemma Number_Nil: "Number [] = 0"
  by (simp add: Number_def digits_value_Nil fl_exact)

lemma Number_nonneg: "list_all isDigit s \<Longrightarrow> 0 \<le> Number s"
  unfolding Number_def by (rule fl_nonneg) (rule digits_value_nonneg)

lemma Number_exact:
  "list_all isDigit s \<Longrightarrow> digits_value s \<le> 2 ^ 53 \<Longrightarrow> Number s = digits_value s"
  using digits_value_nonneg [of s] by (simp add: Number_def fl_exact)

lemma isFinite_between: "0 \<le> a \<Longrightarrow> a \<le> b \<Longrightarrow> isFinite b \<Longrightarrow> isFinite a"
  unfolding isFinite_def by linarith

lemma dash_not_digit: "\<not> isDigit CHR ''-''"
  by (simp add: isDigit_def)

lemma match_range_digits:
  assumes "list_all isDigit s" and "list_all isDigit e"
  shows "match_range (''bytes='' @ s @ CHR ''-'' # e) = Some (s, e)"
proof -
  have all: "\<And>x. x \<in> set s \<Longrightarrow> isDigit x"
    using assms(1) by (simp add: list_all_iff)
  have tw: "takeWhile isDigit (s @ CHR ''-'' # e) = s"
    using all by (simp add: takeWhile_append2 dash_not_digit)
  have dw: "dropWhile isDigit (s @ CHR ''-'' # e) = CHR ''-'' # e"
    using all by (simp add: dropWhile_append2 dash_not_digit)
  show ?thesis
    using assms(2) by (simp add: match_range_def tw dw)
qed

lemma match_range_shape:
  assumes "match_range h = Some (s, e)"
  shows "h = ''bytes='' @ s @ CHR ''-'' # e \<and> list_all isDigit s \<and> list_all isDigit e"
proof -
  from assms have pre: "take 6 h = ''bytes=''"
    by (simp add: match_range_def split: if_splits)
  from assms pre have dw: "dropWhile isDigit (drop 6 h) = CHR ''-'' # e" and e: "list_all isDigit e"
    and s: "s = takeWhile isDigit (drop 6 h)"
    by (auto simp add: match_range_def Let_def split: list.splits if_splits)
  have "drop 6 h = s @ CHR ''-'' # e"
    using takeWhile_dropWhile_id [of isDigit "drop 6 h"] dw s by simp
  moreover have "h = take 6 h @ drop 6 h" by simp
  ultimately have "h = ''bytes='' @ s @ CHR ''-'' # e" using pre by metis
  moreover have "list_all isDigit s"
    unfolding s by (simp add: list_all_iff) (meson set_takeWhileD)
  ultimately show ?thesis using e by simp
qed

lemma hasValidRangeFormat_m:
  "h \<noteq> [] \<Longrightarrow> match_range h = Some p \<Longrightarrow> hasValidRangeFormat (Some h)"
  by (simp add: hasValidRangeFormat_def truthy_def)

lemma getMaxRangeBytes_pos: "0 < getMaxRangeBytes v"
  by (simp add: getMaxRangeBytes_def DEFAULT_MAX_RANGE_BYTES_def split: option.splits)

section \<open>What the parsers return\<close>

lemma parseRange_deferred_marker:
  "parseRange_deferred h m = Some Invalid \<or> parseRange_deferred h m = Some TooLarge \<Longrightarrow> truthy h"
  by (auto simp add: parseRange_deferred_def split: if_splits)

lemma parseRange_deferred_open_m:
  assumes "h \<noteq> []" "match_range h = Some (ns, [])" "ns \<noteq> []" "isFinite (Number ns)"
  shows "parseRange_deferred (Some h) m =
     Some (DWindow \<lparr>offset = Number ns, length_r = m, start = Number ns,
       end_r = fl (fl (Number ns + m) - 1)\<rparr>)"
proof -
  have "0 \<le> Number ns"
    using match_range_shape [OF assms(2)] by (simp add: Number_nonneg)
  then show ?thesis
    using assms by (simp add: parseRange_deferred_def truthy_def Let_def)
qed

lemma parseRange_deferred_closed_m:
  assumes "h \<noteq> []" "match_range h = Some (ns, ms)" "ns \<noteq> []" "ms \<noteq> []"
    and "isFinite (Number ms)" "Number ns \<le> Number ms"
  shows "parseRange_deferred (Some h) m =
     (if fl (fl (Number ms - Number ns) + 1) > m then Some TooLarge
      else Some (DWindow \<lparr>offset = Number ns,
        length_r = fl (fl (Number ms - Number ns) + 1),
        start = Number ns, end_r = Number ms\<rparr>))"
proof -
  have nn: "0 \<le> Number ns"
    using match_range_shape [OF assms(2)] by (simp add: Number_nonneg)
  have "isFinite (Number ns)"
    by (rule isFinite_between [OF nn assms(6,5)])
  then show ?thesis
    using assms nn by (simp add: parseRange_deferred_def truthy_def Let_def)
qed

lemma parseRange_deferred_invalid_m:
  assumes "h \<noteq> []" "match_range h = None \<or> match_range h = Some ([], ks)"
  shows "parseRange_deferred (Some h) m = Some Invalid"
  using assms by (auto simp add: parseRange_deferred_def truthy_def)

lemma parseRange_deferred_window_inv:
  assumes "0 < m" and "parseRange_deferred h m = Some (DWindow w)"
    and "start w + m \<le> 2 ^ 53" and "end_r w < 2 ^ 53"
  shows "0 \<le> start w \<and> start w \<le> end_r w \<and> offset w = start w
       \<and> length_r w = end_r w - start w + 1 \<and> 1 \<le> length_r w"
proof -
  from assms(2) obtain hs s e where h: "h = Some hs" and m: "match_range hs = Some (s, e)"
    by (auto simp add: parseRange_deferred_def truthy_def split: option.splits if_splits)
  have nn: "0 \<le> Number s"
    using match_range_shape [OF m] by (simp add: Number_nonneg)
  show ?thesis
  proof (cases "e = []")
    case True
    with assms(2) h m have w: "start w = Number s" "offset w = Number s" "length_r w = m"
      "end_r w = fl (fl (Number s + m) - 1)"
      by (auto simp add: parseRange_deferred_def truthy_def Let_def split: if_splits)
    have "fl (Number s + m) = Number s + m"
      using nn assms(1,3) w(1) by (intro fl_exact) simp
    moreover have "fl (Number s + m - 1) = Number s + m - 1"
      using nn assms(1,3) w(1) by (intro fl_exact) simp
    ultimately show ?thesis
      using w nn assms(1) by simp
  next
    case False
    with assms(2) h m have w: "start w = Number s" "offset w = Number s"
      "length_r w = fl (fl (Number e - Number s) + 1)" "end_r w = Number e"
      "Number s \<le> Number e"
      by (auto simp add: parseRange_deferred_def truthy_def Let_def split: if_splits)
    have "fl (Number e - Number s) = Number e - Number s"
      using nn w(4,5) assms(4) by (intro fl_exact) simp
    moreover have "fl (Number e - Number s + 1) = Number e - Number s + 1"
      using nn w(4,5) assms(4) by (intro fl_exact) simp
    ultimately show ?thesis
      using w nn by simp
  qed
qed

lemma parseRange_eager_suffix_m:
  assumes "h \<noteq> []" "match_range h = Some ([], ks)" "isFinite (Number ks)" "0 < Number ks"
  shows "parseRange_eager (Some h) S =
     Some (EWindow \<lparr>offset = max 0 (S - min (Number ks) S), length_r = min (Number ks) S,
       start = max 0 (S - min (Number ks) S), end_r = S - 1\<rparr>)"
proof -
  have "ks \<noteq> []" using assms(4) by (auto simp add: Number_Nil)
  then show ?thesis
    using assms by (simp add: parseRange_eager_def truthy_def Let_def)
qed

lemma parseRange_eager_suffix:
  assumes "list_all isDigit ks" "isFinite (Number ks)" "0 < Number ks"
  shows "parseRange_eager (Some (''bytes=-'' @ ks)) S =
     Some (EWindow \<lparr>offset = max 0 (S - min (Number ks) S), length_r = min (Number ks) S,
       start = max 0 (S - min (Number ks) S), end_r = S - 1\<rparr>)"
proof -
  have m: "match_range (''bytes=-'' @ ks) = Some ([], ks)"
    using match_range_digits [of "[]" ks] assms(1) by simp
  show ?thesis
    by (rule parseRange_eager_suffix_m [OF _ m assms(2,3)]) simp
qed

lemma parseRange_eager_open_m:
  assumes "h \<noteq> []" "match_range h = Some (ns, [])" "ns \<noteq> []" "isFinite (Number ns)"
  shows "parseRange_eager (Some h) S =
     (if Number ns \<ge> S then Some Unsatisfiable
      else Some (EWindow \<lparr>offset = Number ns, length_r = S - Number ns,
        start = Number ns, end_r = S - 1\<rparr>))"
proof -
  have "0 \<le> Number ns"
    using match_range_shape [OF assms(2)] by (simp add: Number_nonneg)
  then show ?thesis
    using assms by (simp add: parseRange_eager_def truthy_def Let_def)
qed

lemma parseRange_eager_invalid_m:
  assumes "h \<noteq> []" "match_range h = Some (ns, ms)"
    and "(ns \<noteq> [] \<and> ms \<noteq> [] \<and> Number ms < Number ns) \<or> (ns = [] \<and> Number ms \<le> 0)"
  shows "parseRange_eager (Some h) S = None"
  using assms by (auto simp add: parseRange_eager_def truthy_def Let_def)

lemma parseRange_eager_nonfinite_m:
  assumes "h \<noteq> []" "match_range h = Some (ns, ms)" "ns \<noteq> []" "\<not> isFinite (Number ns)"
  shows "parseRange_eager (Some h) S = None"
  using assms by (simp add: parseRange_eager_def truthy_def Let_def)

lemma parseRange_eager_window_inv:
  assumes "0 < S" and "parseRange_eager h S = Some (EWindow w)"
  shows "0 \<le> start w \<and> start w \<le> end_r w \<and> offset w = start w
       \<and> length_r w = end_r w - start w + 1 \<and> 1 \<le> length_r w"
proof -
  from assms(2) obtain hs s e where h: "h = Some hs" and m: "match_range hs = Some (s, e)"
    by (auto simp add: parseRange_eager_def truthy_def split: option.splits if_splits)
  have "0 \<le> Number s"
    using match_range_shape [OF m] by (simp add: Number_nonneg)
  then show ?thesis
    using assms h m
    by (auto simp add: parseRange_eager_def truthy_def Let_def split: if_splits)
qed

section \<open>What \<^verbatim>\<open>normalizeKey\<close> returns\<close>

lemma normalizeKey_truthy: "normalizeKey dec p = Some k \<Longrightarrow> truthy (Some k)"
  by (auto simp add: normalizeKey_def truthy_def Let_def split: option.splits if_splits)

lemma normalizeKey_undecodable: "dec p = None \<Longrightarrow> normalizeKey dec p = None"
  by (simp add: normalizeKey_def)

lemma normalizeKey_index:
  "dec p = Some d \<Longrightarrow> dropWhile (\<lambda>c. c = CHR ''/'') d = [] \<Longrightarrow>
   normalizeKey dec p = Some ''index.html''"
  by (simp add: normalizeKey_def)

lemma normalizeKey_directory:
  "dec p = Some d \<Longrightarrow> key = dropWhile (\<lambda>c. c = CHR ''/'') d \<Longrightarrow> suffix ''/'' key \<Longrightarrow>
   normalizeKey dec p = Some (key @ ''index.html'')"
  by (auto simp add: normalizeKey_def Let_def)

lemma normalizeKey_file:
  "dec p = Some d \<Longrightarrow> key = dropWhile (\<lambda>c. c = CHR ''/'') d \<Longrightarrow> key \<noteq> [] \<Longrightarrow>
   \<not> suffix ''/'' key \<Longrightarrow>
   normalizeKey dec p = (if sublist ''..'' key \<or> sublist [CHR 0x00] key then None else Some key)"
  by (auto simp add: normalizeKey_def Let_def)

section \<open>The paths through the handlers\<close>

lemma h_get_set: "h_get k (h_set k' v h) = (if k = k' then Some v else h_get k h)"
  by (simp add: h_get_def h_set_def update_conv')

lemma build304Headers_list:
  "build304Headers obj =
     [(''ETag'', httpEtag obj), (''Last-Modified'', uploaded obj)] @
     (case Option.bind (httpMetadata obj) cacheControl of
        None \<Rightarrow> []
      | Some cc \<Rightarrow> if cc \<noteq> [] then [(''Cache-Control'', cc)] else [])"
  by (simp add: build304Headers_def h_set_def split: option.splits)

lemma fetch_deferred_rejected:
  assumes "method_req request = ''GET'' \<or> method_req request = ''HEAD''"
    and "normalizeKey dec (pathname request) = Some key"
    and "parseRange_deferred (h_get ''Range'' (headers_req request))
           (getMaxRangeBytes (RANGE_MAX_BYTES env)) = Some Invalid
      \<or> parseRange_deferred (h_get ''Range'' (headers_req request))
           (getMaxRangeBytes (RANGE_MAX_BYTES env)) = Some TooLarge"
  shows "fetch_deferred dec request env =
    (\<lparr>status = 416, headers = [], body = Some ''Range Not Satisfiable''\<rparr>, [])"
  using assms(1,2) normalizeKey_truthy [OF assms(2)] parseRange_deferred_marker [OF assms(3)]
    assms(3)
  by (auto simp add: fetch_deferred_def Let_def)

lemma fetch_deferred_window:
  assumes "method_req request = ''GET'' \<or> method_req request = ''HEAD''"
    and "normalizeKey dec (pathname request) = Some key"
    and "parseRange_deferred (h_get ''Range'' (headers_req request))
           (getMaxRangeBytes (RANGE_MAX_BYTES env)) = Some (DWindow w)"
  shows "fetch_deferred dec request env =
    (case get (BUCKET env) key (headers_req request) (Some (offset w, length_r w)) of
       None \<Rightarrow> \<lparr>status = 404, headers = [], body = Some ''Not Found''\<rparr>
     | Some obj \<Rightarrow>
         if body_o obj = None
         then \<lparr>status = 304, headers = build304Headers obj, body = None\<rparr>
         else (case size_o obj of
            Some totalSize \<Rightarrow>
              if start w \<ge> totalSize
              then \<lparr>status = 416,
                     headers = [(''Content-Range'', ''bytes */'' @ toString totalSize)],
                     body = Some ''Range Not Satisfiable''\<rparr>
              else \<lparr>status = 206,
                     headers = h_set ''Content-Length''
                       (toString (min (start w + length_r w - 1) (totalSize - 1) - start w + 1))
                       (h_set ''Content-Range''
                         (''bytes '' @ toString (start w) @ ''-''
                            @ toString (min (start w + length_r w - 1) (totalSize - 1))
                            @ ''/'' @ toString totalSize)
                         (withCommonHeaders obj [])),
                     body = (if method_req request = ''HEAD'' then None else body_o obj)\<rparr>
          | None \<Rightarrow>
              \<lparr>status = 206,
                headers = h_set ''Content-Length'' (toString (end_r w - start w + 1))
                  (h_set ''Content-Range''
                    (''bytes '' @ toString (start w) @ ''-'' @ toString (end_r w) @ ''/*'')
                    (withCommonHeaders obj [])),
                body = (if method_req request = ''HEAD'' then None else body_o obj)\<rparr>),
     [Get key (headers_req request) (Some (offset w, length_r w))])"
  using assms normalizeKey_truthy [OF assms(2)]
  by (auto simp add: fetch_deferred_def Let_def truthy_def split: option.splits)

lemma fetch_deferred_unranged:
  assumes "method_req request = ''GET'' \<or> method_req request = ''HEAD''"
    and "normalizeKey dec (pathname request) = Some key"
    and "parseRange_deferred (h_get ''Range'' (headers_req request))
           (getMaxRangeBytes (RANGE_MAX_BYTES env)) = None"
  shows "fetch_deferred dec request env =
    (case get (BUCKET env) key (headers_req request) None of
       None \<Rightarrow> \<lparr>status = 404, headers = [], body = Some ''Not Found''\<rparr>
     | Some obj \<Rightarrow>
         if body_o obj = None
         then \<lparr>status = 304, headers = build304Headers obj, body = None\<rparr>
         else \<lparr>status = 200,
                headers = h_set ''Content-Length'' (String_size (size_o obj))
                  (withCommonHeaders obj []),
                body = (if method_req request = ''HEAD'' then None else body_o obj)\<rparr>,
     [Get key (headers_req request) None])"
  using assms normalizeKey_truthy [OF assms(2)]
  by (auto simp add: fetch_deferred_def Let_def truthy_def split: option.splits)

lemma fetch_eager_probe_missing:
  assumes "method_req request = ''GET'' \<or> method_req request = ''HEAD''"
    and "normalizeKey dec (pathname request) = Some key"
    and "h_get ''Range'' (headers_req request) = Some h" "h \<noteq> []" "match_range h = Some p"
    and "head (BUCKET env) key = None"
  shows "fetch_eager dec request env =
    (\<lparr>status = 404, headers = [], body = Some ''Not Found''\<rparr>, [Head key])"
  using assms normalizeKey_truthy [OF assms(2)]
  by (auto simp add: fetch_eager_def hasValidRangeFormat_def truthy_def Let_def)

lemma fetch_eager_unsat:
  assumes "method_req request = ''GET'' \<or> method_req request = ''HEAD''"
    and "normalizeKey dec (pathname request) = Some key"
    and "h_get ''Range'' (headers_req request) = Some h" "h \<noteq> []" "match_range h = Some p"
    and "head (BUCKET env) key = Some probe"
    and "parseRange_eager (Some h) (size_o probe) = Some Unsatisfiable"
  shows "fetch_eager dec request env =
    (\<lparr>status = 416, headers = [(''Content-Range'', ''bytes */'' @ toString (size_o probe))],
      body = Some ''Range Not Satisfiable''\<rparr>, [Head key])"
  using assms normalizeKey_truthy [OF assms(2)]
  by (auto simp add: fetch_eager_def hasValidRangeFormat_def truthy_def Let_def)

lemma fetch_eager_window:
  assumes "method_req request = ''GET'' \<or> method_req request = ''HEAD''"
    and "normalizeKey dec (pathname request) = Some key"
    and "h_get ''Range'' (headers_req request) = Some h" "h \<noteq> []" "match_range h = Some p"
    and "head (BUCKET env) key = Some probe"
    and "parseRange_eager (Some h) (size_o probe) = Some (EWindow w)"
    and "get (BUCKET env) key (headers_req request) (Some (offset w, length_r w)) = Some obj"
    and "body_o obj = Some b"
  shows "fetch_eager dec request env =
    (\<lparr>status = 206,
      headers = h_set ''Content-Length'' (toString (length_r w))
        (h_set ''Content-Range''
          (''bytes '' @ toString (start w) @ ''-'' @ toString (end_r w) @ ''/''
             @ toString (size_o probe))
          (withCommonHeaders obj [])),
      body = (if method_req request = ''HEAD'' then None else Some b)\<rparr>,
     [Head key, Get key (headers_req request) (Some (offset w, length_r w))])"
  using assms normalizeKey_truthy [OF assms(2)]
  by (auto simp add: fetch_eager_def hasValidRangeFormat_def truthy_def Let_def)

lemma fetch_eager_ignored:
  assumes "method_req request = ''GET'' \<or> method_req request = ''HEAD''"
    and "normalizeKey dec (pathname request) = Some key"
    and "h_get ''Range'' (headers_req request) = Some h" "h \<noteq> []" "match_range h = Some p"
    and "head (BUCKET env) key = Some probe"
    and "parseRange_eager (Some h) (size_o probe) = None"
  shows "fetch_eager dec request env =
    (case get (BUCKET env) key (headers_req request) None of
       None \<Rightarrow> \<lparr>status = 404, headers = [], body = Some ''Not Found''\<rparr>
     | Some obj \<Rightarrow>
         if body_o obj = None
         then \<lparr>status = 304, headers = build304Headers obj, body = None\<rparr>
         else \<lparr>status = 200,
                headers = h_set ''Content-Length'' (toString (size_o obj))
                  (withCommonHeaders obj []),
                body = (if method_req request = ''HEAD'' then None else body_o obj)\<rparr>,
     [Head key, Get key (headers_req request) None])"
  using assms normalizeKey_truthy [OF assms(2)]
  by (auto simp add: fetch_eager_def hasValidRangeFormat_def truthy_def Let_def
        split: option.splits)

lemma fetch_deferred_method:
  "fetch_deferred dec (request\<lparr>method_req := ''HEAD''\<rparr>) env =
     (let (r, calls) = fetch_deferred dec (request\<lparr>method_req := ''GET''\<rparr>) env
      in (r\<lparr>body := if status r = 200 \<or> status r = 206 then None else body r\<rparr>, calls))"
  by (simp add: fetch_deferred_def Let_def split: option.splits range_deferred.splits)

lemma fetch_eager_method:
  "fetch_eager dec (request\<lparr>method_req := ''HEAD''\<rparr>) env =
     (let (r, calls) = fetch_eager dec (request\<lparr>method_req := ''GET''\<rparr>) env
      in (r\<lparr>body := if status r = 200 \<or> status r = 206 then None else body r\<rparr>, calls))"
  by (simp add: fetch_eager_def Let_def split: option.splits range_eager.splits)

lemma fetch_deferred_outcomes:
  "status (fst (fetch_deferred dec request env)) \<in> {200, 206}
   \<or> status (fst (fetch_deferred dec request env)) = 304
       \<and> body (fst (fetch_deferred dec request env)) = None
   \<or> status (fst (fetch_deferred dec request env)) \<in> {400, 404, 405, 416}
       \<and> body (fst (fetch_deferred dec request env)) \<noteq> None"
  by (simp add: fetch_deferred_def Let_def split: option.splits range_deferred.splits)

lemma fetch_eager_outcomes:
  "status (fst (fetch_eager dec request env)) \<in> {200, 206}
   \<or> status (fst (fetch_eager dec request env)) = 304
       \<and> body (fst (fetch_eager dec request env)) = None
   \<or> status (fst (fetch_eager dec request env)) \<in> {400, 404, 405, 416}
       \<and> body (fst (fetch_eager dec request env)) \<noteq> None"
  by (simp add: fetch_eager_def Let_def split: option.splits range_eager.splits)

lemma fetch_deferred_not_405:
  "method_req request = ''GET'' \<Longrightarrow> status (fst (fetch_deferred dec request env)) \<noteq> 405"
  by (simp add: fetch_deferred_def Let_def split: option.splits range_deferred.splits)

lemma fetch_eager_not_405:
  "method_req request = ''GET'' \<Longrightarrow> status (fst (fetch_eager dec request env)) \<noteq> 405"
  by (simp add: fetch_eager_def Let_def split: option.splits range_eager.splits)

text \<open>
  Beyond \<open>2 ^ 53\<close> the handlers see the doubles, not the digits. In the eager variant
  \<^verbatim>\<open>bytes=9007199254740993-9007199254740992\<close> has both ends converted to \<open>2 ^ 53\<close>: the
  test \<^verbatim>\<open>end < start\<close> fails, and on an object of 10 bytes the answer is 416. In the
  deferred variant with a maximum of 1, \<^verbatim>\<open>bytes=9007199254740992-\<close> resolves to a window
  that ends one below its start.
\<close>

lemma eager_rounded_ends_unsatisfiable:
  "fetch_eager decodeURIComponent_ascii
     (example_request ''GET'' ''/a.bin''
        [(''Range'', ''bytes=9007199254740993-9007199254740992'')])
     (example_env id None 10) =
     (\<lparr>status = 416, headers = [(''Content-Range'', ''bytes */10'')],
       body = Some ''Range Not Satisfiable''\<rparr>, [Head ''a.bin''])"
  by code_simp

lemma deferred_window_ends_below_start:
  "parseRange_deferred (Some ''bytes=9007199254740992-'') 1 =
     Some (DWindow \<lparr>offset = 9007199254740992, length_r = 1,
       start = 9007199254740992, end_r = 9007199254740991\<rparr>)"
  by code_simp

section \<open>The claims\<close>

text \<open>
  C1. Deferred variant, a ranged fetch that returns a body: the request reaches the range
  stage, \<^verbatim>\<open>parseRange\<close> resolves a window \<open>w\<close>, and the bucket returns an object with a
  body for that window. If the object's size is a number \<open>S\<close> and \<open>start w \<ge> S\<close>, the
  response is 416 with the one header \<^verbatim>\<open>Content-Range: bytes */S\<close>. If it is a number
  \<open>S\<close> and \<open>start w < S\<close>, the response is 206, the end in \<^verbatim>\<open>Content-Range\<close> is
  \<open>e = min (start + length - 1) (S - 1)\<close> and \<^verbatim>\<open>Content-Length\<close> is \<open>e - start + 1\<close>,
  the length actually returned. If the size is not a number there is no \<open>S\<close> to compare
  with: the response is 206 with the window's own end and \<^verbatim>\<open>/*\<close> for the total.
\<close>

theorem deferred_reconciles_size:
  assumes "method_req request = ''GET'' \<or> method_req request = ''HEAD''"
    and "normalizeKey dec (pathname request) = Some key"
    and "parseRange_deferred (h_get ''Range'' (headers_req request))
           (getMaxRangeBytes (RANGE_MAX_BYTES env)) = Some (DWindow w)"
    and "get (BUCKET env) key (headers_req request) (Some (offset w, length_r w)) = Some obj"
    and "body_o obj = Some b"
    and "r = fst (fetch_deferred dec request env)"
    and "e = min (start w + length_r w - 1) (S - 1)"
  shows "(size_o obj = Some S \<and> start w \<ge> S \<longrightarrow>
            r = \<lparr>status = 416, headers = [(''Content-Range'', ''bytes */'' @ toString S)],
                  body = Some ''Range Not Satisfiable''\<rparr>)
       \<and> (size_o obj = Some S \<and> start w < S \<longrightarrow>
            status r = 206
          \<and> h_get ''Content-Range'' (headers r) =
              Some (''bytes '' @ toString (start w) @ ''-'' @ toString e @ ''/'' @ toString S)
          \<and> h_get ''Content-Length'' (headers r) = Some (toString (e - start w + 1)))
       \<and> (size_o obj = None \<longrightarrow>
            status r = 206
          \<and> h_get ''Content-Range'' (headers r) =
              Some (''bytes '' @ toString (start w) @ ''-'' @ toString (end_r w) @ ''/*'')
          \<and> h_get ''Content-Length'' (headers r) = Some (toString (end_r w - start w + 1)))"
  unfolding assms(6,7) fetch_deferred_window [OF assms(1,2,3)]
  by (simp add: assms(4,5) h_get_set)

text \<open>
  C1 on an object of 1000 bytes: \<^verbatim>\<open>bytes=1500-1600\<close> is answered 416 with
  \<^verbatim>\<open>bytes */1000\<close>; \<^verbatim>\<open>bytes=900-1099\<close> asks for 200 bytes and is answered 206 with
  \<^verbatim>\<open>bytes 900-999/1000\<close> and \<^verbatim>\<open>Content-Length: 100\<close>. On an object whose size is not a
  number, \<^verbatim>\<open>bytes=2-5\<close> is answered 206 with \<^verbatim>\<open>bytes 2-5/*\<close> and
  \<^verbatim>\<open>Content-Length: 4\<close>.
\<close>

theorem deferred_reconciles_size_witness:
  "fst (fetch_deferred decodeURIComponent_ascii
     (example_request ''GET'' ''/a.bin'' [(''Range'', ''bytes=1500-1600'')])
     (example_env Some None 1000)) =
     \<lparr>status = 416, headers = [(''Content-Range'', ''bytes */1000'')],
       body = Some ''Range Not Satisfiable''\<rparr>
   \<and> status (fst (fetch_deferred decodeURIComponent_ascii
       (example_request ''GET'' ''/a.bin'' [(''Range'', ''bytes=900-1099'')])
       (example_env Some None 1000))) = 206
   \<and> h_get ''Content-Range'' (headers (fst (fetch_deferred decodeURIComponent_ascii
       (example_request ''GET'' ''/a.bin'' [(''Range'', ''bytes=900-1099'')])
       (example_env Some None 1000)))) = Some ''bytes 900-999/1000''
   \<and> h_get ''Content-Length'' (headers (fst (fetch_deferred decodeURIComponent_ascii
       (example_request ''GET'' ''/a.bin'' [(''Range'', ''bytes=900-1099'')])
       (example_env Some None 1000)))) = Some ''100''
   \<and> status (fst (fetch_deferred decodeURIComponent_ascii
       (example_request ''GET'' ''/a.bin'' [(''Range'', ''bytes=2-5'')])
       (example_env (\<lambda>n. None) None 10))) = 206
   \<and> h_get ''Content-Range'' (headers (fst (fetch_deferred decodeURIComponent_ascii
       (example_request ''GET'' ''/a.bin'' [(''Range'', ''bytes=2-5'')])
       (example_env (\<lambda>n. None) None 10)))) = Some ''bytes 2-5/*''
   \<and> h_get ''Content-Length'' (headers (fst (fetch_deferred decodeURIComponent_ascii
       (example_request ''GET'' ''/a.bin'' [(''Range'', ''bytes=2-5'')])
       (example_env (\<lambda>n. None) None 10)))) = Some ''4''"
proof -
  let ?rq = "example_request ''GET'' ''/a.bin'' [(''Range'', ''bytes=1500-1600'')]"
  let ?rq' = "example_request ''GET'' ''/a.bin'' [(''Range'', ''bytes=900-1099'')]"
  let ?env = "example_env Some None 1000 :: int option env"
  let ?w = "\<lparr>offset = 1500, length_r = 101, start = 1500, end_r = 1600\<rparr>"
  let ?w' = "\<lparr>offset = 900, length_r = 200, start = 900, end_r = 1099\<rparr>"
  let ?rq'' = "example_request ''GET'' ''/a.bin'' [(''Range'', ''bytes=2-5'')]"
  let ?env'' = "example_env (\<lambda>n. None) None 10 :: int option env"
  let ?w'' = "\<lparr>offset = 2, length_r = 4, start = 2, end_r = 5\<rparr>"
  have a'': "method_req ?rq'' = ''GET'' \<or> method_req ?rq'' = ''HEAD''"
    by (simp add: example_request_def)
  have b'': "normalizeKey decodeURIComponent_ascii (pathname ?rq'') = Some ''a.bin''"
    by code_simp
  have c'': "parseRange_deferred (h_get ''Range'' (headers_req ?rq''))
           (getMaxRangeBytes (RANGE_MAX_BYTES ?env'')) = Some (DWindow ?w'')"
    by code_simp
  have g'': "get (BUCKET ?env'') ''a.bin'' (headers_req ?rq'') (Some (offset ?w'', length_r ?w''))
      = Some (example_object None (Some (replicate 4 CHR ''x'')))"
    by (simp add: example_env_def example_bucket_def example_request_def h_get_def)
  have o'': "body_o (example_object (None :: int option) (Some (replicate 4 CHR ''x''))) = Some (replicate 4 CHR ''x'')"
    "size_o (example_object (None :: int option) (Some (replicate 4 CHR ''x''))) = None"
    by (simp_all add: example_object_def)
  have t'': "toString 2 = ''2''" "toString 5 = ''5''" "toString 4 = ''4''"
    by code_simp+
  have a: "method_req ?rq = ''GET'' \<or> method_req ?rq = ''HEAD''"
    and a': "method_req ?rq' = ''GET'' \<or> method_req ?rq' = ''HEAD''"
    by (simp_all add: example_request_def)
  have b: "normalizeKey decodeURIComponent_ascii (pathname ?rq) = Some ''a.bin''"
    and b': "normalizeKey decodeURIComponent_ascii (pathname ?rq') = Some ''a.bin''"
    by code_simp+
  have c: "parseRange_deferred (h_get ''Range'' (headers_req ?rq))
           (getMaxRangeBytes (RANGE_MAX_BYTES ?env)) = Some (DWindow ?w)"
    and c': "parseRange_deferred (h_get ''Range'' (headers_req ?rq'))
           (getMaxRangeBytes (RANGE_MAX_BYTES ?env)) = Some (DWindow ?w')"
    by code_simp+
  have g: "get (BUCKET ?env) ''a.bin'' (headers_req ?rq) (Some (offset ?w, length_r ?w))
      = Some (example_object (Some 1000) (Some []))"
    and g': "get (BUCKET ?env) ''a.bin'' (headers_req ?rq') (Some (offset ?w', length_r ?w'))
      = Some (example_object (Some 1000) (Some (replicate 100 CHR ''x'')))"
    by (simp_all add: example_env_def example_bucket_def example_request_def h_get_def)
  have o: "body_o (example_object (Some (1000::int)) (Some [])) = Some []"
    "body_o (example_object (Some (1000::int)) (Some (replicate 100 CHR ''x'')))
       = Some (replicate 100 CHR ''x'')"
    "\<And>v. size_o (example_object (Some (1000::int)) v) = Some 1000"
    by (simp_all add: example_object_def)
  have t: "toString 1000 = ''1000''" "toString 900 = ''900''" "toString 999 = ''999''"
    "toString 100 = ''100''"
    by code_simp+
  from deferred_reconciles_size [OF a b c g o(1) refl refl, of 1000]
    deferred_reconciles_size [OF a' b' c' g' o(2) refl refl, of 1000]
    deferred_reconciles_size [OF a'' b'' c'' g'' o''(1) refl refl, of 0]
  show ?thesis
    by (simp add: o(3) o''(2) t t'')
qed

text \<open>
  C2. Eager variant, suffix range \<^verbatim>\<open>bytes=-K\<close> with \<open>K\<close> a run of digits of finite
  value \<open>K > 0\<close>, on a request that reaches the range stage and whose metadata probe finds
  an object of size \<open>S\<close>: the resolved window has \<open>length = min K S\<close>,
  \<open>start = max 0 (S - length)\<close> and \<open>end = S - 1\<close>. When the ranged fetch of that window
  returns a body, the response is 206 with \<^verbatim>\<open>Content-Range: bytes start-end/S\<close> and
  \<^verbatim>\<open>Content-Length: length\<close>; for \<open>S = 50\<close> and \<^verbatim>\<open>bytes=-100\<close> these are
  \<^verbatim>\<open>bytes 0-49/50\<close> and \<^verbatim>\<open>50\<close>.
\<close>

theorem eager_suffix_range:
  assumes "method_req request = ''GET'' \<or> method_req request = ''HEAD''"
    and "normalizeKey dec (pathname request) = Some key"
    and "h_get ''Range'' (headers_req request) = Some (''bytes=-'' @ ks)"
    and "list_all isDigit ks" "isFinite K" "0 < K" "Number ks = K"
    and "head (BUCKET env) key = Some probe" "size_o probe = S"
    and "get (BUCKET env) key (headers_req request) (Some (max 0 (S - min K S), min K S))
           = Some obj"
    and "body_o obj = Some b"
  shows "parseRange_eager (Some (''bytes=-'' @ ks)) S =
           Some (EWindow \<lparr>offset = max 0 (S - min K S), length_r = min K S,
             start = max 0 (S - min K S), end_r = S - 1\<rparr>)
       \<and> status (fst (fetch_eager dec request env)) = 206
       \<and> h_get ''Content-Range'' (headers (fst (fetch_eager dec request env))) =
           Some (''bytes '' @ toString (max 0 (S - min K S)) @ ''-'' @ toString (S - 1)
                   @ ''/'' @ toString S)
       \<and> h_get ''Content-Length'' (headers (fst (fetch_eager dec request env))) =
           Some (toString (min K S))
       \<and> (K = 100 \<and> S = 50 \<longrightarrow>
            h_get ''Content-Range'' (headers (fst (fetch_eager dec request env))) =
              Some ''bytes 0-49/50''
          \<and> h_get ''Content-Length'' (headers (fst (fetch_eager dec request env))) =
              Some ''50'')"
proof -
  let ?h = "''bytes=-'' @ ks"
  let ?w = "\<lparr>offset = max 0 (S - min K S), length_r = min K S,
             start = max 0 (S - min K S), end_r = S - 1\<rparr>"
  have ne: "?h \<noteq> []" by simp
  have m: "match_range ?h = Some ([], ks)"
    using match_range_digits [of "[]" ks] assms(4) by simp
  have p: "parseRange_eager (Some ?h) S = Some (EWindow ?w)"
    using parseRange_eager_suffix_m [OF ne m, of S] assms(5,6,7) by simp
  have g: "get (BUCKET env) key (headers_req request) (Some (offset ?w, length_r ?w)) = Some obj"
    using assms(10) by simp
  have p': "parseRange_eager (Some ?h) (size_o probe) = Some (EWindow ?w)"
    using p assms(9) by simp
  note f = fetch_eager_window [OF assms(1,2,3) ne m assms(8) p' g assms(11)]
  have st: "status (fst (fetch_eager dec request env)) = 206"
    by (simp add: f)
  have cr: "h_get ''Content-Range'' (headers (fst (fetch_eager dec request env))) =
           Some (''bytes '' @ toString (max 0 (S - min K S)) @ ''-'' @ toString (S - 1)
                   @ ''/'' @ toString S)"
    by (simp add: f h_get_set assms(9))
  have cl: "h_get ''Content-Length'' (headers (fst (fetch_eager dec request env))) =
           Some (toString (min K S))"
    by (simp add: f h_get_set)
  have t: "toString 0 = ''0''" "toString 49 = ''49''" "toString 50 = ''50''"
    by code_simp+
  have inst: "K = 100 \<and> S = 50 \<longrightarrow>
            h_get ''Content-Range'' (headers (fst (fetch_eager dec request env))) =
              Some ''bytes 0-49/50''
          \<and> h_get ''Content-Length'' (headers (fst (fetch_eager dec request env))) =
              Some ''50''"
    using cr cl by (auto simp add: t)
  show ?thesis
    using p st cr cl inst by blast
qed

text \<open>
  The scenario of C2, run on an object of 50 bytes: the whole response.
\<close>

theorem eager_suffix_range_witness:
  "fst (fetch_eager decodeURIComponent_ascii
     (example_request ''GET'' ''/a.bin'' [(''Range'', ''bytes=-100'')])
     (example_env id None 50)) =
     \<lparr>status = 206,
       headers = [(''Cache-Control'', ''no-store''), (''ETag'', ''etag-1''),
         (''Last-Modified'', ''Thu, 01 Jan 2026 00:00:00 GMT''), (''Accept-Ranges'', ''bytes''),
         (''Content-Range'', ''bytes 0-49/50''), (''Content-Length'', ''50'')],
       body = Some (replicate 50 CHR ''x'')\<rparr>
   \<and> parseRange_eager (Some ''bytes=-100'') 50 =
       Some (EWindow \<lparr>offset = 0, length_r = 50, start = 0, end_r = 49\<rparr>)"
proof -
  let ?rq = "example_request ''GET'' ''/a.bin'' [(''Range'', ''bytes=-100'')]"
  let ?env = "example_env id None 50 :: int env"
  let ?r = "fst (fetch_eager decodeURIComponent_ascii ?rq ?env)"
  have a: "method_req ?rq = ''GET'' \<or> method_req ?rq = ''HEAD''"
    by (simp add: example_request_def)
  have b: "normalizeKey decodeURIComponent_ascii (pathname ?rq) = Some ''a.bin''"
    by code_simp
  have c: "h_get ''Range'' (headers_req ?rq) = Some (''bytes=-'' @ ''100'')"
    by (simp add: example_request_def h_get_def)
  have d: "list_all isDigit ''100''" "isFinite 100" "(0::int) < 100" "Number ''100'' = 100"
    by code_simp+
  have e: "head (BUCKET ?env) ''a.bin'' = Some (example_object 50 None)"
    "size_o (example_object (50::int) None) = 50"
    by (simp_all add: example_env_def example_bucket_def example_object_def)
  have g: "get (BUCKET ?env) ''a.bin'' (headers_req ?rq) (Some (max 0 (50 - min 100 50), min 100 50))
      = Some (example_object 50 (Some (replicate 50 CHR ''x'')))"
    by (simp add: example_env_def example_bucket_def example_request_def h_get_def)
  have h: "body_o (example_object (50::int) (Some (replicate 50 CHR ''x''))) = Some (replicate 50 CHR ''x'')"
    by (simp add: example_object_def)
  note w = eager_suffix_range [OF a b c d e g h]
  have hs: "headers ?r =
     [(''Cache-Control'', ''no-store''), (''ETag'', ''etag-1''),
         (''Last-Modified'', ''Thu, 01 Jan 2026 00:00:00 GMT''), (''Accept-Ranges'', ''bytes''),
         (''Content-Range'', ''bytes 0-49/50''), (''Content-Length'', ''50'')]"
    and bd: "body ?r = Some (replicate 50 CHR ''x'')"
    by code_simp+
  have "status ?r = 206" using w by simp
  then have "?r = \<lparr>status = 206,
       headers = [(''Cache-Control'', ''no-store''), (''ETag'', ''etag-1''),
         (''Last-Modified'', ''Thu, 01 Jan 2026 00:00:00 GMT''), (''Accept-Ranges'', ''bytes''),
         (''Content-Range'', ''bytes 0-49/50''), (''Content-Length'', ''50'')],
       body = Some (replicate 50 CHR ''x'')\<rparr>"
    using hs bd by (cases ?r) simp
  moreover have "parseRange_eager (Some ''bytes=-100'') 50 =
       Some (EWindow \<lparr>offset = 0, length_r = 50, start = 0, end_r = 49\<rparr>)"
    using w by simp
  ultimately show ?thesis by simp
qed

text \<open>
  C3 says that the eager variant answers 416 to a header that matches the grammar but is
  invalid. \<^verbatim>\<open>parseRange\<close> returns \<^verbatim>\<open>null\<close> for such a header, and the handler then
  serves the full object: \<^verbatim>\<open>bytes=5-3\<close> and \<^verbatim>\<open>bytes=-0\<close> on an object of 10 bytes are
  answered 200.
\<close>

theorem eager_invalid_range_served:
  "match_range ''bytes=5-3'' = Some (''5'', ''3'')
   \<and> fst (fetch_eager decodeURIComponent_ascii
         (example_request ''GET'' ''/a.bin'' [(''Range'', ''bytes=5-3'')])
         (example_env id None 10)) =
       \<lparr>status = 200,
         headers = [(''Cache-Control'', ''no-store''), (''ETag'', ''etag-1''),
           (''Last-Modified'', ''Thu, 01 Jan 2026 00:00:00 GMT''), (''Accept-Ranges'', ''bytes''),
           (''Content-Length'', ''10'')],
         body = Some ''xxxxxxxxxx''\<rparr>
   \<and> status (fst (fetch_eager decodeURIComponent_ascii
         (example_request ''GET'' ''/a.bin'' [(''Range'', ''bytes=-0'')])
         (example_env id None 10))) = 200"
  by code_simp

text \<open>
  C3, amended. Eager variant, on a request that reaches the range stage with a header
  \<^verbatim>\<open>bytes=N-M\<close> where \<open>M < N\<close>, or \<^verbatim>\<open>bytes=-K\<close> where \<open>K \<le> 0\<close>: the range is ignored.
  \<open>N\<close>, \<open>M\<close> and \<open>K\<close> are the numbers that the digits convert to (\<open>Number\<close>), as the
  handler compares them; they are the integers the digits denote whenever these are at
  most \<open>2 ^ 53\<close> (\<open>Number_exact\<close>).
  If the metadata probe finds nothing the response is 404. Otherwise the handler makes one
  unranged fetch after the probe and answers as it does without a Range header: 404 when
  the object is missing, 304 with the reduced headers when the fetch returns no body, else
  200 with the common headers and \<^verbatim>\<open>Content-Length\<close> the object's size. The status is
  never 416.
\<close>

theorem eager_invalid_range_ignored:
  assumes "method_req request = ''GET'' \<or> method_req request = ''HEAD''"
    and "normalizeKey dec (pathname request) = Some key"
    and "h_get ''Range'' (headers_req request) = Some (''bytes='' @ ns @ ''-'' @ ms)"
    and "list_all isDigit ns" "list_all isDigit ms"
    and "(ns \<noteq> [] \<and> ms \<noteq> [] \<and> Number ms < Number ns) \<or> (ns = [] \<and> Number ms \<le> 0)"
  shows "(head (BUCKET env) key = None \<longrightarrow>
           fetch_eager dec request env =
             (\<lparr>status = 404, headers = [], body = Some ''Not Found''\<rparr>, [Head key]))
       \<and> (head (BUCKET env) key \<noteq> None \<longrightarrow>
           fetch_eager dec request env =
             (case get (BUCKET env) key (headers_req request) None of
                None \<Rightarrow> \<lparr>status = 404, headers = [], body = Some ''Not Found''\<rparr>
              | Some obj \<Rightarrow>
                  if body_o obj = None
                  then \<lparr>status = 304, headers = build304Headers obj, body = None\<rparr>
                  else \<lparr>status = 200,
                         headers = h_set ''Content-Length'' (toString (size_o obj))
                           (withCommonHeaders obj []),
                         body = (if method_req request = ''HEAD'' then None else body_o obj)\<rparr>,
              [Head key, Get key (headers_req request) None]))
       \<and> status (fst (fetch_eager dec request env)) \<in> {200, 304, 404}
       \<and> (digits_value ns \<le> 2 ^ 53 \<and> digits_value ms \<le> 2 ^ 53 \<longrightarrow>
            Number ns = digits_value ns \<and> Number ms = digits_value ms)"
proof -
  let ?h = "''bytes='' @ ns @ ''-'' @ ms"
  have ne: "?h \<noteq> []" by simp
  have m: "match_range ?h = Some (ns, ms)"
    using match_range_digits [of ns ms] assms(4,5) by simp
  have ex: "digits_value ns \<le> 2 ^ 53 \<and> digits_value ms \<le> 2 ^ 53 \<longrightarrow>
            Number ns = digits_value ns \<and> Number ms = digits_value ms"
    using Number_exact [OF assms(4)] Number_exact [OF assms(5)] by simp
  show ?thesis
  proof (cases "head (BUCKET env) key")
    case None
    then show ?thesis
      using fetch_eager_probe_missing [OF assms(1,2,3) ne m None] ex by simp
  next
    case (Some probe)
    have p: "parseRange_eager (Some ?h) (size_o probe) = None"
      by (rule parseRange_eager_invalid_m [OF ne m assms(6)])
    note f = fetch_eager_ignored [OF assms(1,2,3) ne m Some p]
    have "status (fst (fetch_eager dec request env)) \<in> {200, 304, 404}"
      by (simp add: f split: option.splits)
    then show ?thesis
      using f Some ex by simp
  qed
qed

text \<open>
  C3 on \<^verbatim>\<open>bytes=5-3\<close> for the stored object, and on \<^verbatim>\<open>bytes=-0\<close> for a key the bucket
  does not hold.
\<close>

theorem eager_invalid_range_ignored_witness:
  "fetch_eager decodeURIComponent_ascii
     (example_request ''HEAD'' ''/a.bin'' [(''Range'', ''bytes=5-3'')])
     (example_env id None 10) =
     (\<lparr>status = 200,
         headers = [(''Cache-Control'', ''no-store''), (''ETag'', ''etag-1''),
           (''Last-Modified'', ''Thu, 01 Jan 2026 00:00:00 GMT''), (''Accept-Ranges'', ''bytes''),
           (''Content-Length'', ''10'')],
         body = None\<rparr>,
      [Head ''a.bin'', Get ''a.bin'' [(''Range'', ''bytes=5-3'')] None])
   \<and> fetch_eager decodeURIComponent_ascii
     (example_request ''GET'' ''/b.bin'' [(''Range'', ''bytes=-0'')])
     (example_env id None 10) =
     (\<lparr>status = 404, headers = [], body = Some ''Not Found''\<rparr>, [Head ''b.bin''])"
proof -
  let ?rq = "example_request ''HEAD'' ''/a.bin'' [(''Range'', ''bytes=5-3'')]"
  let ?rq' = "example_request ''GET'' ''/b.bin'' [(''Range'', ''bytes=-0'')]"
  let ?env = "example_env id None 10 :: int env"
  have a: "method_req ?rq = ''GET'' \<or> method_req ?rq = ''HEAD''"
    and a': "method_req ?rq' = ''GET'' \<or> method_req ?rq' = ''HEAD''"
    by (simp_all add: example_request_def)
  have b: "normalizeKey decodeURIComponent_ascii (pathname ?rq) = Some ''a.bin''"
    and b': "normalizeKey decodeURIComponent_ascii (pathname ?rq') = Some ''b.bin''"
    by code_simp+
  have c: "h_get ''Range'' (headers_req ?rq) = Some (''bytes='' @ ''5'' @ ''-'' @ ''3'')"
    and c': "h_get ''Range'' (headers_req ?rq') = Some (''bytes='' @ [] @ ''-'' @ ''0'')"
    by (simp_all add: example_request_def h_get_def)
  have d: "list_all isDigit ''5''" "list_all isDigit ''3''" "list_all isDigit ''0''"
    "list_all isDigit []"
    by (simp_all add: isDigit_def)
  have e: "(''5'' \<noteq> [] \<and> ''3'' \<noteq> [] \<and> Number ''3'' < Number ''5'')
      \<or> (''5'' = [] \<and> Number ''3'' \<le> 0)"
    and e': "(([]::string) \<noteq> [] \<and> ''0'' \<noteq> [] \<and> Number ''0'' < Number [])
      \<or> (([]::string) = [] \<and> Number ''0'' \<le> 0)"
    by code_simp+
  have hd: "head (BUCKET ?env) ''a.bin'' \<noteq> None" "head (BUCKET ?env) ''b.bin'' = None"
    by (simp_all add: example_env_def example_bucket_def)
  have rhs: "(case get (BUCKET ?env) ''a.bin'' (headers_req ?rq) None of
                None \<Rightarrow> \<lparr>status = 404, headers = [], body = Some ''Not Found''\<rparr>
              | Some obj \<Rightarrow>
                  if body_o obj = None
                  then \<lparr>status = 304, headers = build304Headers obj, body = None\<rparr>
                  else \<lparr>status = 200,
                         headers = h_set ''Content-Length'' (toString (size_o obj))
                           (withCommonHeaders obj []),
                         body = (if method_req ?rq = ''HEAD'' then None else body_o obj)\<rparr>,
              [Head ''a.bin'', Get ''a.bin'' (headers_req ?rq) None]) =
     (\<lparr>status = 200,
         headers = [(''Cache-Control'', ''no-store''), (''ETag'', ''etag-1''),
           (''Last-Modified'', ''Thu, 01 Jan 2026 00:00:00 GMT''), (''Accept-Ranges'', ''bytes''),
           (''Content-Length'', ''10'')],
         body = None\<rparr>,
      [Head ''a.bin'', Get ''a.bin'' [(''Range'', ''bytes=5-3'')] None])"
    by code_simp
  from eager_invalid_range_ignored [OF a b c d(1,2) e, of ?env]
    eager_invalid_range_ignored [OF a' b' c' d(4,3) e', of ?env] hd
  show ?thesis
    by (simp only: rhs simp_thms)
qed

text \<open>
  C4 says that \<^verbatim>\<open>bytes=N-\<close> resolves to \<open>end = N + max - 1\<close> and that a closed range
  longer than the maximum is rejected before any storage call. The handler computes with
  doubles. With the default maximum, \<^verbatim>\<open>bytes=9007199254740992-\<close> resolves to the end
  9007199263129600, one more than \<open>N + max - 1\<close>. With a maximum of 1,
  \<^verbatim>\<open>bytes=9007199254740992-9007199254740993\<close>, a range of 2 bytes, has both ends converted
  to the same double: it resolves to a window of length 1 and the bucket is called.
\<close>

theorem deferred_cap_rounds:
  "parseRange_deferred (Some ''bytes=9007199254740992-'') 8388608 =
     Some (DWindow \<lparr>offset = 9007199254740992, length_r = 8388608,
       start = 9007199254740992, end_r = 9007199263129600\<rparr>)
   \<and> (9007199254740992 + 8388608 - 1 :: int) = 9007199263129599
   \<and> digits_value ''9007199254740993'' - digits_value ''9007199254740992'' + 1 = 2
   \<and> parseRange_deferred (Some ''bytes=9007199254740992-9007199254740993'') 1 =
     Some (DWindow \<lparr>offset = 9007199254740992, length_r = 1,
       start = 9007199254740992, end_r = 9007199254740992\<rparr>)
   \<and> snd (fetch_deferred decodeURIComponent_ascii
       (example_request ''GET'' ''/a.bin'' [(''Range'', ''bytes=9007199254740992-9007199254740993'')])
       (example_env Some (Some 1) 10)) =
     [Get ''a.bin'' [(''Range'', ''bytes=9007199254740992-9007199254740993'')]
        (Some (9007199254740992, 1))]"
proof -
  let ?hs = "[(''Range'', ''bytes=9007199254740992-9007199254740993'')]"
  let ?rq = "example_request ''GET'' ''/a.bin'' ?hs"
  let ?env = "example_env Some (Some 1) 10 :: int option env"
  let ?w = "\<lparr>offset = 9007199254740992, length_r = 1,
       start = 9007199254740992, end_r = 9007199254740992\<rparr>"
  have o: "parseRange_deferred (Some ''bytes=9007199254740992-'') 8388608 =
     Some (DWindow \<lparr>offset = 9007199254740992, length_r = 8388608,
       start = 9007199254740992, end_r = 9007199263129600\<rparr>)"
    by code_simp
  have v: "digits_value ''9007199254740993'' - digits_value ''9007199254740992'' + 1 = 2"
    by code_simp
  have p: "parseRange_deferred (Some ''bytes=9007199254740992-9007199254740993'') 1 =
     Some (DWindow ?w)"
    by code_simp
  have a: "method_req ?rq = ''GET'' \<or> method_req ?rq = ''HEAD''"
    by (simp add: example_request_def)
  have b: "normalizeKey decodeURIComponent_ascii (pathname ?rq) = Some ''a.bin''"
    by code_simp
  have c: "parseRange_deferred (h_get ''Range'' (headers_req ?rq))
      (getMaxRangeBytes (RANGE_MAX_BYTES ?env)) = Some (DWindow ?w)"
    by code_simp
  have hs: "headers_req ?rq = ?hs"
    by (simp add: example_request_def)
  have s: "snd (fetch_deferred decodeURIComponent_ascii ?rq ?env) =
     [Get ''a.bin'' ?hs (Some (9007199254740992, 1))]"
    by (simp add: fetch_deferred_window [OF a b c] hs)
  show ?thesis
    using o v p s by simp
qed

text \<open>
  C4, amended. Deferred variant, on a request that reaches the range stage, with \<open>mx\<close> the
  configured maximum (\<^verbatim>\<open>getMaxRangeBytes(env)\<close>, an integer here), \<open>N\<close> and \<open>M\<close> the
  integers that the digits of the header denote. An open-ended range \<^verbatim>\<open>bytes=N-\<close> with
  \<open>N + mx \<le> 2 ^ 53\<close> resolves to the window of length \<open>mx\<close> with \<open>end = N + mx - 1\<close>, and
  the one storage call asks for exactly (\<open>N\<close>, \<open>mx\<close>). A closed range \<^verbatim>\<open>bytes=N-M\<close> with
  \<open>M < 2 ^ 53\<close> and \<open>M - N + 1 > mx\<close> is \<^verbatim>\<open>tooLarge\<close>: the response is 416 and the list
  of storage calls is empty.
\<close>

theorem deferred_cap:
  assumes "method_req request = ''GET'' \<or> method_req request = ''HEAD''"
    and "normalizeKey dec (pathname request) = Some key"
    and "mx = getMaxRangeBytes (RANGE_MAX_BYTES env)"
    and "ns \<noteq> []" "list_all isDigit ns" "N = digits_value ns"
  shows "(h_get ''Range'' (headers_req request) = Some (''bytes='' @ ns @ ''-'')
            \<and> N + mx \<le> 2 ^ 53 \<longrightarrow>
           parseRange_deferred (Some (''bytes='' @ ns @ ''-'')) mx =
             Some (DWindow \<lparr>offset = N, length_r = mx, start = N, end_r = N + mx - 1\<rparr>)
         \<and> snd (fetch_deferred dec request env) =
             [Get key (headers_req request) (Some (N, mx))])
       \<and> (h_get ''Range'' (headers_req request) = Some (''bytes='' @ ns @ ''-'' @ ms)
            \<and> ms \<noteq> [] \<and> list_all isDigit ms \<and> M = digits_value ms
            \<and> M < 2 ^ 53 \<and> M - N + 1 > mx \<longrightarrow>
           parseRange_deferred (Some (''bytes='' @ ns @ ''-'' @ ms)) mx = Some TooLarge
         \<and> fetch_deferred dec request env =
             (\<lparr>status = 416, headers = [], body = Some ''Range Not Satisfiable''\<rparr>, []))"
proof (intro conjI impI; elim conjE)
  let ?h = "''bytes='' @ ns @ ''-''"
  assume h: "h_get ''Range'' (headers_req request) = Some ?h" and small: "N + mx \<le> 2 ^ 53"
  have pos: "0 < mx" using assms(3) getMaxRangeBytes_pos by simp
  have nn: "0 \<le> N" using assms(5,6) digits_value_nonneg by simp
  have ne: "?h \<noteq> []" by simp
  have m: "match_range ?h = Some (ns, [])"
    using match_range_digits [of ns "[]"] assms(5) by simp
  have ex: "Number ns = N"
    using Number_exact [OF assms(5)] assms(6) small pos by simp
  have fin: "isFinite (Number ns)"
    unfolding ex using nn small pos by (intro isFinite_exact) simp
  have r1: "fl (N + mx) = N + mx"
    using nn small pos by (intro fl_exact) simp
  have r2: "fl (N + mx - 1) = N + mx - 1"
    using nn small pos by (intro fl_exact) simp
  show p: "parseRange_deferred (Some ?h) mx =
      Some (DWindow \<lparr>offset = N, length_r = mx, start = N, end_r = N + mx - 1\<rparr>)"
    using parseRange_deferred_open_m [OF ne m assms(4) fin, of mx] by (simp add: ex r1 r2)
  have p': "parseRange_deferred (h_get ''Range'' (headers_req request))
      (getMaxRangeBytes (RANGE_MAX_BYTES env)) =
      Some (DWindow \<lparr>offset = N, length_r = mx, start = N, end_r = N + mx - 1\<rparr>)"
    using p h assms(3) by simp
  show "snd (fetch_deferred dec request env) = [Get key (headers_req request) (Some (N, mx))]"
    by (simp add: fetch_deferred_window [OF assms(1,2) p'])
next
  let ?h = "''bytes='' @ ns @ ''-'' @ ms"
  assume h: "h_get ''Range'' (headers_req request) = Some ?h"
    and ms: "ms \<noteq> []" "list_all isDigit ms" "M = digits_value ms"
    and small: "M < 2 ^ 53" and big: "mx < M - N + 1"
  have pos: "0 < mx" using assms(3) getMaxRangeBytes_pos by simp
  have nn: "0 \<le> N" using assms(5,6) digits_value_nonneg by simp
  have le: "N \<le> M" using big pos by simp
  have ne: "?h \<noteq> []" by simp
  have m: "match_range ?h = Some (ns, ms)"
    using match_range_digits [of ns ms] assms(5) ms(2) by simp
  have exN: "Number ns = N"
    using Number_exact [OF assms(5)] assms(6) small le by simp
  have exM: "Number ms = M"
    using Number_exact [OF ms(2)] ms(3) small by simp
  have fin: "isFinite (Number ms)"
    unfolding exM using nn le small by (intro isFinite_exact) simp
  have r1: "fl (M - N) = M - N"
    using nn le small by (intro fl_exact) simp
  have r2: "fl (M - N + 1) = M - N + 1"
    using nn le small by (intro fl_exact) simp
  have le': "Number ns \<le> Number ms" using le exN exM by simp
  show p: "parseRange_deferred (Some ?h) mx = Some TooLarge"
    using parseRange_deferred_closed_m [OF ne m assms(4) ms(1) fin le', of mx] big
    by (simp add: exN exM r1 r2)
  have p': "parseRange_deferred (h_get ''Range'' (headers_req request))
      (getMaxRangeBytes (RANGE_MAX_BYTES env)) = Some Invalid
    \<or> parseRange_deferred (h_get ''Range'' (headers_req request))
      (getMaxRangeBytes (RANGE_MAX_BYTES env)) = Some TooLarge"
    using p h assms(3) by simp
  show "fetch_deferred dec request env =
      (\<lparr>status = 416, headers = [], body = Some ''Range Not Satisfiable''\<rparr>, [])"
    by (rule fetch_deferred_rejected [OF assms(1,2) p'])
qed

text \<open>
  C4 with a configured maximum of 1000: \<^verbatim>\<open>bytes=5-\<close> resolves to 5-1004, and
  \<^verbatim>\<open>bytes=5-1005\<close> (1001 bytes) is rejected with no storage call.
\<close>

theorem deferred_cap_witness:
  "parseRange_deferred (Some ''bytes=5-'') 1000 =
     Some (DWindow \<lparr>offset = 5, length_r = 1000, start = 5, end_r = 1004\<rparr>)
   \<and> snd (fetch_deferred decodeURIComponent_ascii
       (example_request ''GET'' ''/a.bin'' [(''Range'', ''bytes=5-'')])
       (example_env Some (Some 1000) 2000)) =
       [Get ''a.bin'' [(''Range'', ''bytes=5-'')] (Some (5, 1000))]
   \<and> parseRange_deferred (Some ''bytes=5-1005'') 1000 = Some TooLarge
   \<and> fetch_deferred decodeURIComponent_ascii
       (example_request ''GET'' ''/a.bin'' [(''Range'', ''bytes=5-1005'')])
       (example_env Some (Some 1000) 2000) =
       (\<lparr>status = 416, headers = [], body = Some ''Range Not Satisfiable''\<rparr>, [])"
proof -
  let ?rq = "example_request ''GET'' ''/a.bin'' [(''Range'', ''bytes=5-'')]"
  let ?rq' = "example_request ''GET'' ''/a.bin'' [(''Range'', ''bytes=5-1005'')]"
  let ?env = "example_env Some (Some 1000) 2000 :: int option env"
  have a: "method_req ?rq = ''GET'' \<or> method_req ?rq = ''HEAD''"
    and a': "method_req ?rq' = ''GET'' \<or> method_req ?rq' = ''HEAD''"
    by (simp_all add: example_request_def)
  have b: "normalizeKey decodeURIComponent_ascii (pathname ?rq) = Some ''a.bin''"
    and b': "normalizeKey decodeURIComponent_ascii (pathname ?rq') = Some ''a.bin''"
    by code_simp+
  have mx: "1000 = getMaxRangeBytes (RANGE_MAX_BYTES ?env)"
    by (simp add: example_env_def getMaxRangeBytes_def isFinite_def)
  have d: "''5'' \<noteq> []" "list_all isDigit ''5''" "5 = digits_value ''5''"
    and d': "''1005'' \<noteq> []" "list_all isDigit ''1005''"
    by (simp_all add: isDigit_def digits_value_def)
  have n: "digits_value ''1005'' = 1005"
    by (simp add: digits_value_def)
  have h: "h_get ''Range'' (headers_req ?rq) = Some (''bytes='' @ ''5'' @ ''-'')"
    and h': "h_get ''Range'' (headers_req ?rq') = Some (''bytes='' @ ''5'' @ ''-'' @ ''1005'')"
    and hs: "headers_req ?rq = [(''Range'', ''bytes=5-'')]"
    by (simp_all add: example_request_def h_get_def)
  have s1: "(5::int) + 1000 \<le> 2 ^ 53"
    and s2: "(1005::int) < 2 ^ 53 \<and> (1000::int) < 1005 - 5 + 1"
    by simp_all
  have o: "parseRange_deferred (Some (''bytes='' @ ''5'' @ ''-'')) 1000 =
      Some (DWindow \<lparr>offset = 5, length_r = 1000, start = 5, end_r = 5 + 1000 - 1\<rparr>)
    \<and> snd (fetch_deferred decodeURIComponent_ascii ?rq ?env) =
      [Get ''a.bin'' (headers_req ?rq) (Some (5, 1000))]"
    using deferred_cap [OF a b mx d, of "[]" 0] h s1 by blast
  have c: "parseRange_deferred (Some (''bytes='' @ ''5'' @ ''-'' @ ''1005'')) 1000 = Some TooLarge
    \<and> fetch_deferred decodeURIComponent_ascii ?rq' ?env =
      (\<lparr>status = 416, headers = [], body = Some ''Range Not Satisfiable''\<rparr>, [])"
    using deferred_cap [OF a' b' mx d, of "''1005''" 1005] h' d' n [symmetric] s2 by blast
  show ?thesis
    using o c by (simp add: hs)
qed

text \<open>
  C5 says that every resolved window has \<open>start \<le> end\<close> and \<open>length \<ge> 1\<close>. The suffix
  branch of the eager \<^verbatim>\<open>parseRange\<close> has no test against the size, unlike the two other
  branches (\<^verbatim>\<open>start >= size\<close>): on an object of size 0, \<^verbatim>\<open>bytes=-5\<close> resolves to the
  window of length 0 from 0 to -1, and the handler answers 206 with
  \<^verbatim>\<open>Content-Range: bytes 0--1/0\<close>. (The invariant holds in the
  eager variant for a size above 0, \<open>parseRange_eager_window_inv\<close>, and in the deferred
  variant while the numbers stay below \<open>2 ^ 53\<close>, \<open>parseRange_deferred_window_inv\<close>.)
\<close>

theorem eager_suffix_on_empty_object:
  "parseRange_eager (Some ''bytes=-5'') 0 =
     Some (EWindow \<lparr>offset = 0, length_r = 0, start = 0, end_r = - 1\<rparr>)
   \<and> fetch_eager decodeURIComponent_ascii
       (example_request ''GET'' ''/a.bin'' [(''Range'', ''bytes=-5'')])
       (example_env id None 0) =
       (\<lparr>status = 206,
          headers = [(''Cache-Control'', ''no-store''), (''ETag'', ''etag-1''),
            (''Last-Modified'', ''Thu, 01 Jan 2026 00:00:00 GMT''), (''Accept-Ranges'', ''bytes''),
            (''Content-Range'', ''bytes 0--1/0''), (''Content-Length'', ''0'')],
          body = Some []\<rparr>,
        [Head ''a.bin'', Get ''a.bin'' [(''Range'', ''bytes=-5'')] (Some (0, 0))])"
  by code_simp

text \<open>
  The window of C5's failing input breaks both bounds.
\<close>

theorem eager_suffix_on_empty_object_witness:
  "\<exists>w. parseRange_eager (Some ''bytes=-5'') 0 = Some (EWindow w)
       \<and> end_r w < start w \<and> length_r w < 1"
  using eager_suffix_on_empty_object by simp

text \<open>
  C6 speaks of every open-ended range \<^verbatim>\<open>bytes=N-\<close>. A start of 310 digits converts to
  \<^verbatim>\<open>Infinity\<close>; \<^verbatim>\<open>parseRange\<close> tests \<^verbatim>\<open>Number.isFinite(start)\<close> first and returns
  \<^verbatim>\<open>null\<close>, so the header is ignored: on an object of 10 bytes the answer is 200 with no
  \<^verbatim>\<open>Content-Range\<close>, where \<open>N \<ge> S\<close> asks for 416.
\<close>

theorem eager_huge_start_served:
  "(10::int) \<le> digits_value (replicate 310 CHR ''9'')
   \<and> status (fst (fetch_eager decodeURIComponent_ascii
         (example_request ''GET'' ''/a.bin''
            [(''Range'', ''bytes='' @ replicate 310 CHR ''9'' @ ''-'')])
         (example_env id None 10))) = 200
   \<and> h_get ''Content-Range'' (headers (fst (fetch_eager decodeURIComponent_ascii
         (example_request ''GET'' ''/a.bin''
            [(''Range'', ''bytes='' @ replicate 310 CHR ''9'' @ ''-'')])
         (example_env id None 10)))) = None"
  by code_simp

text \<open>
  C6, amended. Eager variant, open-ended range \<^verbatim>\<open>bytes=N-\<close> (a non-empty run of digits)
  on a request that reaches the range stage and whose metadata probe finds an object of
  size \<open>S\<close>; \<open>N\<close> is the number the digits convert to, which is the integer they denote
  whenever that is at most \<open>2 ^ 53\<close>. If \<open>N\<close> is finite and \<open>N \<ge> S\<close>, the response is 416
  with the one header \<^verbatim>\<open>Content-Range: bytes */S\<close>, after the probe alone. If \<open>N\<close> is
  finite and \<open>N < S\<close>, the resolved window has \<open>end = S - 1\<close> and \<open>length = S - N\<close> (and
  \<open>start = offset = N\<close>). If \<open>N\<close> is not finite the range is ignored: one unranged fetch
  follows the probe and the status is 200, 304 or 404.
\<close>

theorem eager_open_ended_range:
  assumes "method_req request = ''GET'' \<or> method_req request = ''HEAD''"
    and "normalizeKey dec (pathname request) = Some key"
    and "h_get ''Range'' (headers_req request) = Some (''bytes='' @ ns @ ''-'')"
    and "ns \<noteq> []" "list_all isDigit ns" "N = Number ns"
    and "head (BUCKET env) key = Some probe" "S = size_o probe"
  shows "(isFinite N \<and> N \<ge> S \<longrightarrow>
           fetch_eager dec request env =
             (\<lparr>status = 416, headers = [(''Content-Range'', ''bytes */'' @ toString S)],
               body = Some ''Range Not Satisfiable''\<rparr>, [Head key]))
       \<and> (isFinite N \<and> N < S \<longrightarrow>
           parseRange_eager (Some (''bytes='' @ ns @ ''-'')) S =
             Some (EWindow \<lparr>offset = N, length_r = S - N, start = N, end_r = S - 1\<rparr>))
       \<and> (\<not> isFinite N \<longrightarrow>
           parseRange_eager (Some (''bytes='' @ ns @ ''-'')) S = None
         \<and> status (fst (fetch_eager dec request env)) \<in> {200, 304, 404}
         \<and> snd (fetch_eager dec request env) = [Head key, Get key (headers_req request) None])
       \<and> (digits_value ns \<le> 2 ^ 53 \<longrightarrow> N = digits_value ns \<and> isFinite N)"
proof -
  let ?h = "''bytes='' @ ns @ ''-''"
  have ne: "?h \<noteq> []" by simp
  have m: "match_range ?h = Some (ns, [])"
    using match_range_digits [of ns "[]"] assms(5) by simp
  have fin_case: "isFinite N \<Longrightarrow> parseRange_eager (Some ?h) (size_o probe) =
     (if Number ns \<ge> size_o probe then Some Unsatisfiable
      else Some (EWindow \<lparr>offset = Number ns, length_r = size_o probe - Number ns,
        start = Number ns, end_r = size_o probe - 1\<rparr>))"
    using parseRange_eager_open_m [OF ne m assms(4), of "size_o probe"] assms(6) by simp
  have a: "isFinite N \<and> N \<ge> S \<longrightarrow>
           fetch_eager dec request env =
             (\<lparr>status = 416, headers = [(''Content-Range'', ''bytes */'' @ toString S)],
               body = Some ''Range Not Satisfiable''\<rparr>, [Head key])"
  proof (intro impI, elim conjE)
    assume "isFinite N" "S \<le> N"
    then have "parseRange_eager (Some ?h) (size_o probe) = Some Unsatisfiable"
      using fin_case assms(6,8) by simp
    then show "fetch_eager dec request env =
             (\<lparr>status = 416, headers = [(''Content-Range'', ''bytes */'' @ toString S)],
               body = Some ''Range Not Satisfiable''\<rparr>, [Head key])"
      unfolding assms(8) by (rule fetch_eager_unsat [OF assms(1,2,3) ne m assms(7)])
  qed
  have b: "isFinite N \<and> N < S \<longrightarrow>
           parseRange_eager (Some ?h) S =
             Some (EWindow \<lparr>offset = N, length_r = S - N, start = N, end_r = S - 1\<rparr>)"
    using fin_case assms(6,8) by simp
  have c: "\<not> isFinite N \<longrightarrow>
           parseRange_eager (Some ?h) S = None
         \<and> status (fst (fetch_eager dec request env)) \<in> {200, 304, 404}
         \<and> snd (fetch_eager dec request env) = [Head key, Get key (headers_req request) None]"
  proof
    assume "\<not> isFinite N"
    then have nf: "\<not> isFinite (Number ns)" using assms(6) by simp
    have p: "parseRange_eager (Some ?h) (size_o probe) = None"
      by (rule parseRange_eager_nonfinite_m [OF ne m assms(4) nf])
    note f = fetch_eager_ignored [OF assms(1,2,3) ne m assms(7) p]
    have "status (fst (fetch_eager dec request env)) \<in> {200, 304, 404}"
      by (simp add: f split: option.splits)
    moreover have "snd (fetch_eager dec request env) =
        [Head key, Get key (headers_req request) None]"
      by (simp add: f)
    ultimately show "parseRange_eager (Some ?h) S = None
         \<and> status (fst (fetch_eager dec request env)) \<in> {200, 304, 404}
         \<and> snd (fetch_eager dec request env) = [Head key, Get key (headers_req request) None]"
      using p assms(8) by simp
  qed
  have d: "digits_value ns \<le> 2 ^ 53 \<longrightarrow> N = digits_value ns \<and> isFinite N"
  proof
    assume le: "digits_value ns \<le> 2 ^ 53"
    have "N = digits_value ns"
      using Number_exact [OF assms(5) le] assms(6) by simp
    moreover have "isFinite (digits_value ns)"
      using digits_value_nonneg [OF assms(5)] le by (intro isFinite_exact) simp
    ultimately show "N = digits_value ns \<and> isFinite N" by simp
  qed
  show ?thesis
    using a b c d by blast
qed

text \<open>
  The scenarios of C6 on an object of 1000 bytes: \<^verbatim>\<open>bytes=1500-\<close> is answered 416 with
  \<^verbatim>\<open>Content-Range: bytes */1000\<close>; \<^verbatim>\<open>bytes=500-\<close> resolves to 500-999; a start of 310
  digits leads to the unranged fetch.
\<close>

theorem eager_open_ended_range_witness:
  "fetch_eager decodeURIComponent_ascii
     (example_request ''GET'' ''/a.bin'' [(''Range'', ''bytes=1500-'')])
     (example_env id None 1000) =
     (\<lparr>status = 416, headers = [(''Content-Range'', ''bytes */1000'')],
       body = Some ''Range Not Satisfiable''\<rparr>, [Head ''a.bin''])
   \<and> parseRange_eager (Some ''bytes=500-'') 1000 =
       Some (EWindow \<lparr>offset = 500, length_r = 500, start = 500, end_r = 999\<rparr>)
   \<and> snd (fetch_eager decodeURIComponent_ascii
       (example_request ''GET'' ''/a.bin''
          [(''Range'', ''bytes='' @ replicate 310 CHR ''9'' @ ''-'')])
       (example_env id None 1000)) =
       [Head ''a.bin'',
        Get ''a.bin'' [(''Range'', ''bytes='' @ replicate 310 CHR ''9'' @ ''-'')] None]"
proof -
  let ?rq = "example_request ''GET'' ''/a.bin'' [(''Range'', ''bytes=1500-'')]"
  let ?rq' = "example_request ''GET'' ''/a.bin'' [(''Range'', ''bytes=500-'')]"
  let ?big = "replicate 310 CHR ''9''"
  let ?rq'' = "example_request ''GET'' ''/a.bin'' [(''Range'', ''bytes='' @ ?big @ ''-'')]"
  let ?env = "example_env id None 1000 :: int env"
  have a: "method_req ?rq = ''GET'' \<or> method_req ?rq = ''HEAD''"
    and a': "method_req ?rq' = ''GET'' \<or> method_req ?rq' = ''HEAD''"
    and a'': "method_req ?rq'' = ''GET'' \<or> method_req ?rq'' = ''HEAD''"
    by (simp_all add: example_request_def)
  have b: "normalizeKey decodeURIComponent_ascii (pathname ?rq) = Some ''a.bin''"
    and b': "normalizeKey decodeURIComponent_ascii (pathname ?rq') = Some ''a.bin''"
    and b'': "normalizeKey decodeURIComponent_ascii (pathname ?rq'') = Some ''a.bin''"
    by code_simp+
  have c: "h_get ''Range'' (headers_req ?rq) = Some (''bytes='' @ ''1500'' @ ''-'')"
    and c': "h_get ''Range'' (headers_req ?rq') = Some (''bytes='' @ ''500'' @ ''-'')"
    and c'': "h_get ''Range'' (headers_req ?rq'') = Some (''bytes='' @ ?big @ ''-'')"
    and hs: "headers_req ?rq'' = [(''Range'', ''bytes='' @ ?big @ ''-'')]"
    by (simp_all add: example_request_def h_get_def)
  have d: "''1500'' \<noteq> []" "list_all isDigit ''1500''" "1500 = Number ''1500''"
    and d': "''500'' \<noteq> []" "list_all isDigit ''500''" "500 = Number ''500''"
    and d'': "?big \<noteq> []" "list_all isDigit ?big"
    by code_simp+
  have e: "head (BUCKET ?env) ''a.bin'' = Some (example_object 1000 None)"
    by (simp add: example_env_def example_bucket_def)
  have s: "1000 = size_o (example_object (1000::int) None)"
    by (simp add: example_object_def)
  have f: "isFinite 1500 \<and> (1000::int) \<le> 1500" "isFinite 500 \<and> (500::int) < 1000"
    "\<not> isFinite (Number ?big)"
    by code_simp+
  have t: "toString 1000 = ''1000''"
    by code_simp
  have r1: "fetch_eager decodeURIComponent_ascii ?rq ?env =
     (\<lparr>status = 416, headers = [(''Content-Range'', ''bytes */'' @ toString 1000)],
       body = Some ''Range Not Satisfiable''\<rparr>, [Head ''a.bin''])"
    using eager_open_ended_range [OF a b c d e s] f(1) by blast
  have r2: "parseRange_eager (Some (''bytes='' @ ''500'' @ ''-'')) 1000 =
       Some (EWindow \<lparr>offset = 500, length_r = 1000 - 500, start = 500, end_r = 1000 - 1\<rparr>)"
    using eager_open_ended_range [OF a' b' c' d' e s] f(2) by blast
  have r3: "snd (fetch_eager decodeURIComponent_ascii ?rq'' ?env) =
       [Head ''a.bin'', Get ''a.bin'' (headers_req ?rq'') None]"
    using eager_open_ended_range [OF a'' b'' c'' d'' refl e s] f(3) by blast
  show ?thesis
    using r1 r2 r3 [unfolded hs] by (simp add: t)
qed

text \<open>
  C7 says that every malformed Range header is answered 416 in the deferred variant. A
  Range header with the empty value does not match the grammar, yet it is not parsed at
  all: \<^verbatim>\<open>parseRange\<close> returns \<^verbatim>\<open>null\<close> for it (\<^verbatim>\<open>!rangeHeader\<close>), the 416 test asks for
  a truthy header, and the object is served in full with 200.
\<close>

theorem deferred_empty_range_served:
  "h_get ''Range'' (headers_req (example_request ''GET'' ''/a.bin'' [(''Range'', [])])) = Some []
   \<and> match_range [] = None
   \<and> status (fst (fetch_deferred decodeURIComponent_ascii
         (example_request ''GET'' ''/a.bin'' [(''Range'', [])])
         (example_env Some None 10))) = 200"
  by code_simp

text \<open>
  C7, amended. Deferred variant, on a request that reaches the range stage and carries a
  Range header of value \<open>h\<close>. If \<open>h\<close> is not empty and either does not match the grammar
  or is a suffix range \<^verbatim>\<open>bytes=-K\<close>, the response is 416, the handler sets no header on
  it (so no \<^verbatim>\<open>Content-Range\<close>), and no storage call is made. If \<open>h\<close> is empty, the header is
  treated as absent: one unranged fetch, and a response of status 200, 304 or 404.
\<close>

theorem deferred_malformed_range:
  assumes "method_req request = ''GET'' \<or> method_req request = ''HEAD''"
    and "normalizeKey dec (pathname request) = Some key"
    and "h_get ''Range'' (headers_req request) = Some h"
  shows "(h \<noteq> [] \<and> (match_range h = None \<or> (h = ''bytes=-'' @ ks \<and> list_all isDigit ks))
           \<longrightarrow>
           fetch_deferred dec request env =
             (\<lparr>status = 416, headers = [], body = Some ''Range Not Satisfiable''\<rparr>, [])
         \<and> h_get ''Content-Range'' (headers (fst (fetch_deferred dec request env))) = None)
       \<and> (h = [] \<longrightarrow>
           status (fst (fetch_deferred dec request env)) \<in> {200, 304, 404}
         \<and> snd (fetch_deferred dec request env) = [Get key (headers_req request) None])"
proof (intro conjI impI; (elim conjE)?)
  assume ne: "h \<noteq> []"
    and bad: "match_range h = None \<or> (h = ''bytes=-'' @ ks \<and> list_all isDigit ks)"
  have "match_range h = None \<or> match_range h = Some ([], ks)"
    using bad match_range_digits [of "[]" ks] by auto
  then have "parseRange_deferred (Some h) (getMaxRangeBytes (RANGE_MAX_BYTES env)) = Some Invalid"
    by (rule parseRange_deferred_invalid_m [OF ne])
  then have p: "parseRange_deferred (h_get ''Range'' (headers_req request))
           (getMaxRangeBytes (RANGE_MAX_BYTES env)) = Some Invalid
      \<or> parseRange_deferred (h_get ''Range'' (headers_req request))
           (getMaxRangeBytes (RANGE_MAX_BYTES env)) = Some TooLarge"
    using assms(3) by simp
  show f: "fetch_deferred dec request env =
      (\<lparr>status = 416, headers = [], body = Some ''Range Not Satisfiable''\<rparr>, [])"
    by (rule fetch_deferred_rejected [OF assms(1,2) p])
  show "h_get ''Content-Range'' (headers (fst (fetch_deferred dec request env))) = None"
    by (simp add: f h_get_def)
next
  assume e: "h = []"
  have p: "parseRange_deferred (h_get ''Range'' (headers_req request))
           (getMaxRangeBytes (RANGE_MAX_BYTES env)) = None"
    using assms(3) e by (simp add: parseRange_deferred_def truthy_def)
  note f = fetch_deferred_unranged [OF assms(1,2) p]
  show "status (fst (fetch_deferred dec request env)) \<in> {200, 304, 404}"
    by (simp add: f split: option.splits)
  show "snd (fetch_deferred dec request env) = [Get key (headers_req request) None]"
    by (simp add: f)
qed

text \<open>
  C7 on \<^verbatim>\<open>bytes=-5\<close> (a suffix range), on \<^verbatim>\<open>bytes=0-1,4-5\<close> (no match) and on the
  empty value.
\<close>

theorem deferred_malformed_range_witness:
  "fetch_deferred decodeURIComponent_ascii
     (example_request ''GET'' ''/a.bin'' [(''Range'', ''bytes=-5'')])
     (example_env Some None 10) =
     (\<lparr>status = 416, headers = [], body = Some ''Range Not Satisfiable''\<rparr>, [])
   \<and> fetch_deferred decodeURIComponent_ascii
     (example_request ''GET'' ''/a.bin'' [(''Range'', ''bytes=0-1,4-5'')])
     (example_env Some None 10) =
     (\<lparr>status = 416, headers = [], body = Some ''Range Not Satisfiable''\<rparr>, [])
   \<and> snd (fetch_deferred decodeURIComponent_ascii
     (example_request ''GET'' ''/a.bin'' [(''Range'', [])])
     (example_env Some None 10)) = [Get ''a.bin'' [(''Range'', [])] None]"
proof -
  let ?rq = "example_request ''GET'' ''/a.bin'' [(''Range'', ''bytes=-5'')]"
  let ?rq' = "example_request ''GET'' ''/a.bin'' [(''Range'', ''bytes=0-1,4-5'')]"
  let ?rq'' = "example_request ''GET'' ''/a.bin'' [(''Range'', [])]"
  let ?env = "example_env Some None 10 :: int option env"
  have a: "method_req ?rq = ''GET'' \<or> method_req ?rq = ''HEAD''"
    and a': "method_req ?rq' = ''GET'' \<or> method_req ?rq' = ''HEAD''"
    and a'': "method_req ?rq'' = ''GET'' \<or> method_req ?rq'' = ''HEAD''"
    by (simp_all add: example_request_def)
  have b: "normalizeKey decodeURIComponent_ascii (pathname ?rq) = Some ''a.bin''"
    and b': "normalizeKey decodeURIComponent_ascii (pathname ?rq') = Some ''a.bin''"
    and b'': "normalizeKey decodeURIComponent_ascii (pathname ?rq'') = Some ''a.bin''"
    by code_simp+
  have c: "h_get ''Range'' (headers_req ?rq) = Some ''bytes=-5''"
    and c': "h_get ''Range'' (headers_req ?rq') = Some ''bytes=0-1,4-5''"
    and c'': "h_get ''Range'' (headers_req ?rq'') = Some []"
    and hs: "headers_req ?rq'' = [(''Range'', [])]"
    by (simp_all add: example_request_def h_get_def)
  have d: "''bytes=-5'' = ''bytes=-'' @ ''5'' \<and> list_all isDigit ''5''"
    by (simp add: isDigit_def)
  have d': "match_range ''bytes=0-1,4-5'' = None"
    by code_simp
  have ne: "''bytes=-5'' \<noteq> []" "''bytes=0-1,4-5'' \<noteq> []"
    by simp_all
  have f1: "fetch_deferred decodeURIComponent_ascii ?rq ?env =
     (\<lparr>status = 416, headers = [], body = Some ''Range Not Satisfiable''\<rparr>, [])"
    using deferred_malformed_range [OF a b c, of "''5''" ?env] ne(1) d by blast
  have f2: "fetch_deferred decodeURIComponent_ascii ?rq' ?env =
     (\<lparr>status = 416, headers = [], body = Some ''Range Not Satisfiable''\<rparr>, [])"
    using deferred_malformed_range [OF a' b' c', of "[]" ?env] ne(2) d' by blast
  have f3: "snd (fetch_deferred decodeURIComponent_ascii ?rq'' ?env) =
     [Get ''a.bin'' (headers_req ?rq'') None]"
    using deferred_malformed_range [OF a'' b'' c'', of "[]" ?env] by blast
  show ?thesis
    using f1 f2 f3 unfolding hs by (intro conjI)
qed

text \<open>
  C8 says that every decoded, stripped key that contains \<^verbatim>\<open>..\<close> or a null character is
  rejected. \<^verbatim>\<open>normalizeKey\<close> returns for a key that ends in \<^verbatim>\<open>/\<close> before it makes that
  test: the paths \<^verbatim>\<open>/..%2F\<close>, \<^verbatim>\<open>/a/../b/\<close> and \<^verbatim>\<open>/a%00b/\<close> give keys, where the
  path \<^verbatim>\<open>/a/b/../c\<close> of the spec's scenario is rejected. (The other parts of C8 hold:
  \<open>normalizeKey_undecodable\<close>, \<open>normalizeKey_index\<close>, \<open>normalizeKey_directory\<close>,
  \<open>normalizeKey_file\<close>.)
\<close>

theorem normalizeKey_keeps_dots_before_slash:
  "normalizeKey decodeURIComponent_ascii ''/..%2F'' = Some ''../index.html''
   \<and> normalizeKey decodeURIComponent_ascii ''/a/../b/'' = Some ''a/../b/index.html''
   \<and> normalizeKey decodeURIComponent_ascii ''/a%00b/'' = Some (''a'' @ [CHR 0x00] @ ''b/index.html'')
   \<and> normalizeKey decodeURIComponent_ascii ''/a/b/../c'' = None"
  by code_simp

text \<open>
  The key returned for \<^verbatim>\<open>/..%2F\<close> contains \<^verbatim>\<open>..\<close>.
\<close>

theorem normalizeKey_keeps_dots_before_slash_witness:
  "\<exists>key. normalizeKey decodeURIComponent_ascii ''/..%2F'' = Some key \<and> sublist ''..'' key"
proof -
  have "sublist ''..'' ''../index.html''"
    by code_simp
  then show ?thesis
    using normalizeKey_keeps_dots_before_slash by simp
qed

text \<open>
  C9 says that the body of a HEAD response is empty whatever the outcome. The handlers
  replace the body by \<^verbatim>\<open>null\<close> for HEAD on the 200 and 206 responses only; an error
  response is built with its fixed text for every method. A HEAD request for a key the
  bucket does not hold is answered 404 with the body \<^verbatim>\<open>Not Found\<close>, in both variants.
\<close>

theorem head_missing_object_has_body:
  "fst (fetch_deferred decodeURIComponent_ascii (example_request ''HEAD'' ''/b.bin'' [])
     (example_env Some None 10)) =
     \<lparr>status = 404, headers = [], body = Some ''Not Found''\<rparr>
   \<and> fst (fetch_eager decodeURIComponent_ascii
     (example_request ''HEAD'' ''/b.bin'' [(''Range'', ''bytes=0-4'')])
     (example_env id None 10)) =
     \<lparr>status = 404, headers = [], body = Some ''Not Found''\<rparr>"
  by code_simp

text \<open>
  C9, amended. For every request, decoder and bucket, in both variants: the request sent
  with HEAD gets the same status, the same headers and the same storage calls as the same
  request sent with GET. Its body is empty on the 200, 206 and 304 outcomes; on the other
  outcomes (400, 404, 416) it is the fixed text of the GET response, which is not empty.
\<close>

theorem head_follows_get:
  fixes env_d :: "int option env" and env_e :: "int env"
  assumes "g_d = fst (fetch_deferred dec (request\<lparr>method_req := ''GET''\<rparr>) env_d)"
    and "h_d = fst (fetch_deferred dec (request\<lparr>method_req := ''HEAD''\<rparr>) env_d)"
    and "g_e = fst (fetch_eager dec (request\<lparr>method_req := ''GET''\<rparr>) env_e)"
    and "h_e = fst (fetch_eager dec (request\<lparr>method_req := ''HEAD''\<rparr>) env_e)"
  shows "status h_d = status g_d \<and> headers h_d = headers g_d
       \<and> snd (fetch_deferred dec (request\<lparr>method_req := ''HEAD''\<rparr>) env_d) =
           snd (fetch_deferred dec (request\<lparr>method_req := ''GET''\<rparr>) env_d)
       \<and> (if status g_d \<in> {200, 206, 304} then body h_d = None
           else status g_d \<in> {400, 404, 416} \<and> body h_d = body g_d \<and> body h_d \<noteq> None)
       \<and> status h_e = status g_e \<and> headers h_e = headers g_e
       \<and> snd (fetch_eager dec (request\<lparr>method_req := ''HEAD''\<rparr>) env_e) =
           snd (fetch_eager dec (request\<lparr>method_req := ''GET''\<rparr>) env_e)
       \<and> (if status g_e \<in> {200, 206, 304} then body h_e = None
           else status g_e \<in> {400, 404, 416} \<and> body h_e = body g_e \<and> body h_e \<noteq> None)"
proof -
  let ?rq = "request\<lparr>method_req := ''GET''\<rparr>"
  have d: "status h_d = status g_d \<and> headers h_d = headers g_d
       \<and> snd (fetch_deferred dec (request\<lparr>method_req := ''HEAD''\<rparr>) env_d) =
           snd (fetch_deferred dec ?rq env_d)
       \<and> (if status g_d \<in> {200, 206, 304} then body h_d = None
           else status g_d \<in> {400, 404, 416} \<and> body h_d = body g_d \<and> body h_d \<noteq> None)"
    using fetch_deferred_outcomes [of dec ?rq env_d] fetch_deferred_not_405 [of ?rq dec env_d]
    unfolding assms(1,2) fetch_deferred_method [of dec request env_d]
    by (cases "fetch_deferred dec ?rq env_d") auto
  have e: "status h_e = status g_e \<and> headers h_e = headers g_e
       \<and> snd (fetch_eager dec (request\<lparr>method_req := ''HEAD''\<rparr>) env_e) =
           snd (fetch_eager dec ?rq env_e)
       \<and> (if status g_e \<in> {200, 206, 304} then body h_e = None
           else status g_e \<in> {400, 404, 416} \<and> body h_e = body g_e \<and> body h_e \<noteq> None)"
    using fetch_eager_outcomes [of dec ?rq env_e] fetch_eager_not_405 [of ?rq dec env_e]
    unfolding assms(3,4) fetch_eager_method [of dec request env_e]
    by (cases "fetch_eager dec ?rq env_e") auto
  show ?thesis
    using d e by blast
qed

text \<open>
  C9 on a ranged request for the stored object: HEAD is answered 206 without a body.
\<close>

theorem head_follows_get_witness:
  "status (fst (fetch_deferred decodeURIComponent_ascii
     ((example_request ''PUT'' ''/a.bin'' [(''Range'', ''bytes=2-5'')])\<lparr>method_req := ''HEAD''\<rparr>)
     (example_env Some None 10))) = 206
   \<and> body (fst (fetch_deferred decodeURIComponent_ascii
     ((example_request ''PUT'' ''/a.bin'' [(''Range'', ''bytes=2-5'')])\<lparr>method_req := ''HEAD''\<rparr>)
     (example_env Some None 10))) = None
   \<and> status (fst (fetch_eager decodeURIComponent_ascii
     ((example_request ''PUT'' ''/a.bin'' [(''Range'', ''bytes=2-5'')])\<lparr>method_req := ''HEAD''\<rparr>)
     (example_env id None 10))) = 206
   \<and> body (fst (fetch_eager decodeURIComponent_ascii
     ((example_request ''PUT'' ''/a.bin'' [(''Range'', ''bytes=2-5'')])\<lparr>method_req := ''HEAD''\<rparr>)
     (example_env id None 10))) = None"
proof -
  let ?rq = "example_request ''PUT'' ''/a.bin'' [(''Range'', ''bytes=2-5'')]"
  have g: "status (fst (fetch_deferred decodeURIComponent_ascii (?rq\<lparr>method_req := ''GET''\<rparr>)
      (example_env Some None 10))) = 206"
    "status (fst (fetch_eager decodeURIComponent_ascii (?rq\<lparr>method_req := ''GET''\<rparr>)
      (example_env id None 10))) = 206"
    by code_simp+
  from head_follows_get [OF refl refl refl refl, of decodeURIComponent_ascii ?rq
      "example_env Some None 10" "example_env id None 10"]
  show ?thesis
    by (simp add: g)
qed

text \<open>
  C10. Both variants: when the last storage call of a request is a fetch (ranged or not)
  and the bucket answers it with an object that has no body, the response is 304 with no
  body, and its headers are exactly \<^verbatim>\<open>ETag\<close>, \<^verbatim>\<open>Last-Modified\<close> and, when the object's
  metadata has a cache control (a non-empty string, as the source's test of the value
  reads), \<^verbatim>\<open>Cache-Control\<close>. \<^verbatim>\<open>Accept-Ranges\<close>, \<^verbatim>\<open>Content-Length\<close> and
  \<^verbatim>\<open>Content-Range\<close> are absent, with or without a Range header on the request.
\<close>

theorem not_modified_headers:
  fixes env_d :: "int option env" and env_e :: "int env"
  assumes "calls \<noteq> []" "last calls = Get k onlyIf rng"
  shows "(fetch_deferred dec request env_d = (r, calls)
            \<and> get (BUCKET env_d) k onlyIf rng = Some obj_d \<and> body_o obj_d = None \<longrightarrow>
          status r = 304 \<and> body r = None
        \<and> headers r =
            [(''ETag'', httpEtag obj_d), (''Last-Modified'', uploaded obj_d)] @
            (case Option.bind (httpMetadata obj_d) cacheControl of
               None \<Rightarrow> []
             | Some cc \<Rightarrow> if cc \<noteq> [] then [(''Cache-Control'', cc)] else [])
        \<and> h_get ''Accept-Ranges'' (headers r) = None
        \<and> h_get ''Content-Length'' (headers r) = None
        \<and> h_get ''Content-Range'' (headers r) = None)
       \<and> (fetch_eager dec request env_e = (r, calls)
            \<and> get (BUCKET env_e) k onlyIf rng = Some obj_e \<and> body_o obj_e = None \<longrightarrow>
          status r = 304 \<and> body r = None
        \<and> headers r =
            [(''ETag'', httpEtag obj_e), (''Last-Modified'', uploaded obj_e)] @
            (case Option.bind (httpMetadata obj_e) cacheControl of
               None \<Rightarrow> []
             | Some cc \<Rightarrow> if cc \<noteq> [] then [(''Cache-Control'', cc)] else [])
        \<and> h_get ''Accept-Ranges'' (headers r) = None
        \<and> h_get ''Content-Length'' (headers r) = None
        \<and> h_get ''Content-Range'' (headers r) = None)"
proof (intro conjI impI; elim conjE)
  assume f: "fetch_deferred dec request env_d = (r, calls)"
    and o: "get (BUCKET env_d) k onlyIf rng = Some obj_d" "body_o obj_d = None"
  have "r = \<lparr>status = 304, headers = build304Headers obj_d, body = None\<rparr>"
    using f o assms
    by (auto simp add: fetch_deferred_def Let_def
          split: if_splits option.splits range_deferred.splits)
  then show "status r = 304" "body r = None"
    "headers r =
       [(''ETag'', httpEtag obj_d), (''Last-Modified'', uploaded obj_d)] @
       (case Option.bind (httpMetadata obj_d) cacheControl of
          None \<Rightarrow> []
        | Some cc \<Rightarrow> if cc \<noteq> [] then [(''Cache-Control'', cc)] else [])"
    "h_get ''Accept-Ranges'' (headers r) = None"
    "h_get ''Content-Length'' (headers r) = None"
    "h_get ''Content-Range'' (headers r) = None"
    by (simp_all add: build304Headers_list h_get_def split: option.splits)
next
  assume f: "fetch_eager dec request env_e = (r, calls)"
    and o: "get (BUCKET env_e) k onlyIf rng = Some obj_e" "body_o obj_e = None"
  have "r = \<lparr>status = 304, headers = build304Headers obj_e, body = None\<rparr>"
    using f o assms
    by (auto simp add: fetch_eager_def Let_def
          split: if_splits option.splits range_eager.splits)
  then show "status r = 304" "body r = None"
    "headers r =
       [(''ETag'', httpEtag obj_e), (''Last-Modified'', uploaded obj_e)] @
       (case Option.bind (httpMetadata obj_e) cacheControl of
          None \<Rightarrow> []
        | Some cc \<Rightarrow> if cc \<noteq> [] then [(''Cache-Control'', cc)] else [])"
    "h_get ''Accept-Ranges'' (headers r) = None"
    "h_get ''Content-Length'' (headers r) = None"
    "h_get ''Content-Range'' (headers r) = None"
    by (simp_all add: build304Headers_list h_get_def split: option.splits)
qed

text \<open>
  C10 on a ranged request whose \<^verbatim>\<open>If-None-Match\<close> names the stored entity tag.
\<close>

theorem not_modified_headers_witness:
  "fst (fetch_deferred decodeURIComponent_ascii
     (example_request ''GET'' ''/a.bin''
        [(''If-None-Match'', ''etag-1''), (''Range'', ''bytes=0-4'')])
     (example_env Some None 10)) =
     \<lparr>status = 304,
       headers = [(''ETag'', ''etag-1''), (''Last-Modified'', ''Thu, 01 Jan 2026 00:00:00 GMT''),
         (''Cache-Control'', ''no-store'')],
       body = None\<rparr>
   \<and> fst (fetch_eager decodeURIComponent_ascii
     (example_request ''GET'' ''/a.bin''
        [(''If-None-Match'', ''etag-1''), (''Range'', ''bytes=0-4'')])
     (example_env id None 10)) =
     \<lparr>status = 304,
       headers = [(''ETag'', ''etag-1''), (''Last-Modified'', ''Thu, 01 Jan 2026 00:00:00 GMT''),
         (''Cache-Control'', ''no-store'')],
       body = None\<rparr>"
proof -
  let ?hs = "[(''If-None-Match'', ''etag-1''), (''Range'', ''bytes=0-4'')]"
  let ?rq = "example_request ''GET'' ''/a.bin'' ?hs"
  let ?env_d = "example_env Some None 10 :: int option env"
  let ?env_e = "example_env id None 10 :: int env"
  let ?fd = "fetch_deferred decodeURIComponent_ascii ?rq ?env_d"
  let ?fe = "fetch_eager decodeURIComponent_ascii ?rq ?env_e"
  have cd: "snd ?fd = [Get ''a.bin'' ?hs (Some (0, 5))]"
    and ce: "snd ?fe = [Head ''a.bin'', Get ''a.bin'' ?hs (Some (0, 5))]"
    by code_simp+
  have nd: "snd ?fd \<noteq> []" "last (snd ?fd) = Get ''a.bin'' ?hs (Some (0, 5))"
    and ne: "snd ?fe \<noteq> []" "last (snd ?fe) = Get ''a.bin'' ?hs (Some (0, 5))"
    by (simp_all add: cd ce)
  have gd: "get (BUCKET ?env_d) ''a.bin'' ?hs (Some (0, 5)) = Some (example_object (Some 10) None)"
    and ge: "get (BUCKET ?env_e) ''a.bin'' ?hs (Some (0, 5)) = Some (example_object 10 None)"
    by (simp_all add: example_env_def example_bucket_def h_get_def)
  have o: "body_o (example_object (Some (10::int)) None) = None"
    "body_o (example_object (10::int) None) = None"
    by (simp_all add: example_object_def)
  have d: "status (fst ?fd) = 304 \<and> body (fst ?fd) = None \<and> headers (fst ?fd) =
      [(''ETag'', ''etag-1''), (''Last-Modified'', ''Thu, 01 Jan 2026 00:00:00 GMT''),
         (''Cache-Control'', ''no-store'')]"
    using not_modified_headers [OF nd, of decodeURIComponent_ascii ?rq ?env_d "fst ?fd"
        "example_object (Some 10) None"] gd o(1)
    by (simp add: example_object_def)
  have e: "status (fst ?fe) = 304 \<and> body (fst ?fe) = None \<and> headers (fst ?fe) =
      [(''ETag'', ''etag-1''), (''Last-Modified'', ''Thu, 01 Jan 2026 00:00:00 GMT''),
         (''Cache-Control'', ''no-store'')]"
    using not_modified_headers [OF ne, of decodeURIComponent_ascii ?rq _ "fst ?fe" _ ?env_e
        "example_object 10 None"] ge o(2)
    by (simp add: example_object_def)
  show ?thesis
    using d e by (cases "fst ?fd"; cases "fst ?fe") simp
qed

end
